theory Spec2Isabelle
  imports Complex_Main "HOL-Library.Word"
begin

section \<open>Rig and its sub-poses (openMVG/sfm/Rig.hpp)\<close>

text \<open>
  The status enumeration of a sub-pose, in declaration order
  (\<open>UNINITIALIZED = 0\<close>, \<open>ESTIMATED = 1\<close>, \<open>CONSTANT = 2\<close>).
\<close>

datatype ERigSubPoseStatus = UNINITIALIZED | ESTIMATED | CONSTANT

text \<open>
  \<open>struct RigSubPose\<close>: a status and a relative pose. The type
  \<open>geometry::Pose3\<close> is declared in another header; it is the type parameter
  \<open>'pose\<close>, and the value of its default constructor \<open>Pose3()\<close> is passed
  explicitly wherever the C++ default argument is used.
\<close>

record 'pose RigSubPose =
  status :: ERigSubPoseStatus
  pose :: 'pose

text \<open>
  The constructor \<open>RigSubPose(pose = Pose3(), status = UNINITIALIZED)\<close> and the
  object it builds when both default arguments are taken.
\<close>

definition RigSubPose_ctor :: "'pose \<Rightarrow> ERigSubPoseStatus \<Rightarrow> 'pose RigSubPose" where
  "RigSubPose_ctor p s = \<lparr>status = s, pose = p\<rparr>"

definition RigSubPose_default :: "'pose \<Rightarrow> 'pose RigSubPose" where
  "RigSubPose_default pose3_default = RigSubPose_ctor pose3_default UNINITIALIZED"

text \<open>\<open>RigSubPose::operator==\<close> compares the status and the pose.\<close>

definition RigSubPose_eq :: "'pose RigSubPose \<Rightarrow> 'pose RigSubPose \<Rightarrow> bool" where
  "RigSubPose_eq a b = (status a = status b \<and> pose a = pose b)"

text \<open>\<open>class Rig\<close> owns the vector \<open>_subPoses\<close>.\<close>

record 'pose Rig =
  subPoses :: "'pose RigSubPose list"

text \<open>
  \<open>Rig(unsigned int nbSubPoses = 0)\<close> resizes the empty vector to \<open>nbSubPoses\<close>
  elements; \<open>std::vector::resize\<close> fills with default-constructed sub-poses.
\<close>

definition Rig_ctor :: "'pose \<Rightarrow> 32 word \<Rightarrow> 'pose Rig" where
  "Rig_ctor pose3_default nbSubPoses =
     \<lparr>subPoses = replicate (unat nbSubPoses) (RigSubPose_default pose3_default)\<rparr>"

text \<open>\<open>Rig::operator==\<close>: element-wise comparison of the two vectors.\<close>

definition Rig_eq :: "'pose Rig \<Rightarrow> 'pose Rig \<Rightarrow> bool" where
  "Rig_eq a b = list_all2 RigSubPose_eq (subPoses a) (subPoses b)"

text \<open>
  \<open>isInitialized\<close>: the range-for loop returns \<open>true\<close> at the first sub-pose whose
  status differs from \<open>UNINITIALIZED\<close>, and \<open>false\<close> when the vector is exhausted.
\<close>

fun isInitialized_loop :: "'pose RigSubPose list \<Rightarrow> bool" where
  "isInitialized_loop [] = False"
| "isInitialized_loop (subPose # rest) =
     (if status subPose \<noteq> UNINITIALIZED then True else isInitialized_loop rest)"

definition isInitialized :: "'pose Rig \<Rightarrow> bool" where
  "isInitialized r = isInitialized_loop (subPoses r)"

definition getNbSubPoses :: "'pose Rig \<Rightarrow> nat" where
  "getNbSubPoses r = length (subPoses r)"

definition getSubPoses :: "'pose Rig \<Rightarrow> 'pose RigSubPose list" where
  "getSubPoses r = subPoses r"

text \<open>
  \<open>getSubPose(IndexT index)\<close> goes through \<open>std::vector::at\<close>, which throws
  \<open>std::out_of_range\<close> for an index beyond the vector. \<open>IndexT\<close> is a 32-bit
  unsigned integer.
\<close>

datatype rig_error = out_of_range

definition getSubPose :: "'pose Rig \<Rightarrow> 32 word \<Rightarrow> rig_error + 'pose RigSubPose" where
  "getSubPose r index =
     (if unat index < length (subPoses r) then Inr (subPoses r ! unat index)
      else Inl out_of_range)"

text \<open>
  \<open>setSubPose(index, rigSubPose)\<close> asserts that the index is inside the vector and
  then overwrites the element; the failed assertion is the value \<open>None\<close>.
\<close>

definition setSubPose :: "'pose Rig \<Rightarrow> 32 word \<Rightarrow> 'pose RigSubPose \<Rightarrow> 'pose Rig option" where
  "setSubPose r index rigSubPose =
     (if length (subPoses r) > unat index
      then Some (r\<lparr>subPoses := (subPoses r)[unat index := rigSubPose]\<rparr>)
      else None)"

section \<open>The meshing executable: command line\<close>

text \<open>
  The second translation unit is the \<open>main\<close> of the meshing executable. It begins
  with the partitioning mode and its conversion from text.
\<close>

datatype EPartitioning = eUndefined | eSingleBlock | eAuto

definition EPartitioning_stringToEnum :: "string \<Rightarrow> EPartitioning" where
  "EPartitioning_stringToEnum s =
     (if s = ''singleBlock'' then eSingleBlock
      else if s = ''auto'' then eAuto
      else eUndefined)"

text \<open>
  \<open>operator>>(std::istream&, EPartitioning&)\<close> extracts one \<open>std::string\<close> and
  assigns the converted mode, whatever was extracted. The stream is represented by the
  characters still to be read. Formatted extraction of a string takes the characters in
  front of the first white space and sets the fail bit when it takes none. The caller is
  the option library's conversion (\<open>lexical_cast\<close>), which hands over the option's
  text with white-space skipping switched off, and accepts the result when the stream
  has not failed and is exhausted.
\<close>

definition isspace :: "char \<Rightarrow> bool" where
  "isspace c = (c \<in> set [CHR '' '', CHR 0x09, CHR 0x0A, CHR 0x0B, CHR 0x0C, CHR 0x0D])"

definition extract_string :: "string \<Rightarrow> bool \<times> string \<times> string" where
  "extract_string input =
     (let s = takeWhile (\<lambda>c. \<not> isspace c) input
      in (s \<noteq> [], s, dropWhile (\<lambda>c. \<not> isspace c) input))"

definition EPartitioning_extract :: "string \<Rightarrow> bool \<times> EPartitioning \<times> string" where
  "EPartitioning_extract input =
     (case extract_string input of
        (ok, s, rest) \<Rightarrow> (ok, EPartitioning_stringToEnum s, rest))"

definition lexical_cast_EPartitioning :: "string \<Rightarrow> EPartitioning option" where
  "lexical_cast_EPartitioning v =
     (case EPartitioning_extract v of
        (ok, mode, rest) \<Rightarrow> if ok \<and> rest = [] then Some mode else None)"

text \<open>
  The conversion of an \<open>int\<close> option: an optional sign, then decimal digits only, and
  a value that fits 32 bits.
\<close>

definition isdigit :: "char \<Rightarrow> bool" where
  "isdigit c = (c \<in> set ''0123456789'')"

fun decimal :: "int \<Rightarrow> string \<Rightarrow> int" where
  "decimal acc [] = acc"
| "decimal acc (c # cs) = decimal (10 * acc + (of_char c - 48)) cs"

definition lexical_cast_int :: "string \<Rightarrow> 32 word option" where
  "lexical_cast_int v =
     (let negative = (take 1 v = ''-'');
          digits = (if take 1 v = ''-'' \<or> take 1 v = ''+'' then drop 1 v else v);
          n = decimal 0 digits
      in if digits = [] \<or> \<not> list_all isdigit digits then None
         else if negative then (if n \<le> 2 ^ 31 then Some (word_of_int (- n)) else None)
         else (if n < 2 ^ 31 then Some (word_of_int n) else None))"

text \<open>
  The options that \<open>main\<close> declares. Every option takes a value; four are required,
  three have a default. No option named \<open>help\<close> is declared.
\<close>

datatype value_semantic = string_value | int_value | EPartitioning_value

datatype variable_value =
    String_value string
  | Int_value "32 word"
  | Partitioning_value EPartitioning

record option_description =
  long_name :: string
  short_name :: "char option"
  semantic :: value_semantic
  is_required :: bool
  default_value :: "variable_value option"

definition requiredParams :: "option_description list" where
  "requiredParams =
     [\<lparr>long_name = ''ini'', short_name = None, semantic = string_value,
        is_required = True, default_value = None\<rparr>,
      \<lparr>long_name = ''depthMapFolder'', short_name = None, semantic = string_value,
        is_required = True, default_value = None\<rparr>,
      \<lparr>long_name = ''depthMapFilterFolder'', short_name = None, semantic = string_value,
        is_required = True, default_value = None\<rparr>,
      \<lparr>long_name = ''output'', short_name = Some (CHR ''o''), semantic = string_value,
        is_required = True, default_value = None\<rparr>]"

definition optionalParams :: "option_description list" where
  "optionalParams =
     [\<lparr>long_name = ''maxPts'', short_name = None, semantic = int_value,
        is_required = False, default_value = Some (Int_value 6000000)\<rparr>,
      \<lparr>long_name = ''maxPtsPerVoxel'', short_name = None, semantic = int_value,
        is_required = False, default_value = Some (Int_value 6000000)\<rparr>,
      \<lparr>long_name = ''partitioning'', short_name = None, semantic = EPartitioning_value,
        is_required = False, default_value = Some (Partitioning_value eSingleBlock)\<rparr>]"

definition allParams :: "option_description list" where
  "allParams = requiredParams @ optionalParams"

text \<open>
  The exceptions of the option library. \<open>required_option\<close> has a handler of its
  own in \<open>main\<close>; all the others are caught as the base class \<open>error\<close>.
\<close>

datatype po_error =
    required_option
  | unknown_option string
  | invalid_command_line_syntax string
  | invalid_option_value string
  | multiple_occurrences string

text \<open>
  \<open>po::store\<close> takes the option occurrences that the command-line lexer found, as
  pairs of an option name and the text of its value, in order. An occurrence of a name
  that is not declared is an \<open>unknown_option\<close>, a second occurrence of a name is
  \<open>multiple_occurrences\<close>, and the text is converted as the option's type says: a
  string is taken as it is, an \<open>int\<close> and a partitioning mode go through the
  conversions above and an \<open>invalid_option_value\<close> reports their failure. Declared
  defaults are added for the options that did not occur.
\<close>

type_synonym variables_map = "(string \<times> variable_value) list"

definition validate :: "value_semantic \<Rightarrow> string \<Rightarrow> po_error + variable_value" where
  "validate sem v =
     (case sem of
        string_value \<Rightarrow> Inr (String_value v)
      | int_value \<Rightarrow>
          (case lexical_cast_int v of
             None \<Rightarrow> Inl (invalid_option_value v)
           | Some n \<Rightarrow> Inr (Int_value n))
      | EPartitioning_value \<Rightarrow>
          (case lexical_cast_EPartitioning v of
             None \<Rightarrow> Inl (invalid_option_value v)
           | Some mode \<Rightarrow> Inr (Partitioning_value mode)))"

fun store_options ::
  "option_description list \<Rightarrow> (string \<times> string) list \<Rightarrow> variables_map \<Rightarrow> po_error + variables_map"
where
  "store_options ds [] vm = Inr vm"
| "store_options ds ((name, v) # occurrences) vm =
     (case find (\<lambda>d. long_name d = name) ds of
        None \<Rightarrow> Inl (unknown_option name)
      | Some d \<Rightarrow>
          if map_of vm name \<noteq> None then Inl (multiple_occurrences name)
          else (case validate (semantic d) v of
                  Inl e \<Rightarrow> Inl e
                | Inr x \<Rightarrow> store_options ds occurrences (vm @ [(name, x)])))"

fun apply_defaults :: "option_description list \<Rightarrow> variables_map \<Rightarrow> variables_map" where
  "apply_defaults [] vm = vm"
| "apply_defaults (d # ds) vm =
     (case default_value d of
        None \<Rightarrow> apply_defaults ds vm
      | Some x \<Rightarrow>
          if map_of vm (long_name d) = None
          then apply_defaults ds (vm @ [(long_name d, x)])
          else apply_defaults ds vm)"

definition store ::
  "option_description list \<Rightarrow> (string \<times> string) list \<Rightarrow> po_error + variables_map" where
  "store ds occurrences =
     (case store_options ds occurrences [] of
        Inl e \<Rightarrow> Inl e
      | Inr vm \<Rightarrow> Inr (apply_defaults ds vm))"

definition vm_count :: "variables_map \<Rightarrow> string \<Rightarrow> nat" where
  "vm_count vm name = (if map_of vm name = None then 0 else 1)"

text \<open>
  \<open>po::notify\<close> throws \<open>required_option\<close> when a required option has no value, and
  otherwise writes every value into the variable that \<open>main\<close> bound to its option.
  The record \<open>params\<close> holds those variables of \<open>main\<close>.
\<close>

record params =
  iniFilepath :: string
  outputMesh :: string
  depthMapFolder :: string
  depthMapFilterFolder :: string
  partitioning :: EPartitioning
  maxPts :: "32 word"
  maxPtsPerVoxel :: "32 word"

definition as_string :: "variable_value option \<Rightarrow> string" where
  "as_string x = (case x of Some (String_value s) \<Rightarrow> s | _ \<Rightarrow> [])"

definition as_int :: "variable_value option \<Rightarrow> 32 word" where
  "as_int x = (case x of Some (Int_value n) \<Rightarrow> n | _ \<Rightarrow> 6000000)"

definition as_EPartitioning :: "variable_value option \<Rightarrow> EPartitioning" where
  "as_EPartitioning x = (case x of Some (Partitioning_value mode) \<Rightarrow> mode | _ \<Rightarrow> eSingleBlock)"

definition notify :: "option_description list \<Rightarrow> variables_map \<Rightarrow> po_error + params" where
  "notify ds vm =
     (if list_ex (\<lambda>d. is_required d \<and> map_of vm (long_name d) = None) ds
      then Inl required_option
      else Inr \<lparr>iniFilepath = as_string (map_of vm ''ini''),
                outputMesh = as_string (map_of vm ''output''),
                depthMapFolder = as_string (map_of vm ''depthMapFolder''),
                depthMapFilterFolder = as_string (map_of vm ''depthMapFilterFolder''),
                partitioning = as_EPartitioning (map_of vm ''partitioning''),
                maxPts = as_int (map_of vm ''maxPts''),
                maxPtsPerVoxel = as_int (map_of vm ''maxPtsPerVoxel'')\<rparr>)"

section \<open>The meshing executable: the run\<close>

text \<open>
  Everything that \<open>main\<close> calls outside this file (the option library's lexer, the
  configuration file, the file system, the space partitioner, the planner and the
  reconstructor) is represented twice: each call is recorded as an event of the run, in
  program order, and each value that a call returns and that \<open>main\<close> goes on to use is
  a field of the environment \<open>env\<close>. The calls are taken to return; what \<open>main\<close>
  itself throws is modelled.
\<close>

type_synonym point3d = "real \<times> real \<times> real"

text \<open>
  Modelled from the spec: the class \<open>mv_mesh\<close> is not part of the sources at hand.
  The spec describes a mesh as a vertex list and a triangular face list; \<open>main\<close>
  reads the vertex list as \<open>mesh->pts\<close>. A face is three vertex indices.
\<close>

record mv_mesh =
  pts :: "point3d list"
  tris :: "(nat \<times> nat \<times> nat) list"

text \<open>
  The fields of the environment:
  \<^item> \<open>parse_command_line\<close>: the lexer of the option library, from the declared
    options and the arguments after the program name to the option occurrences, or the
    exception it throws;
  \<^item> \<open>ini_gridLevel0\<close>, \<open>ini_exportDebugGC\<close>: the entries \<open>largeScale.gridLevel0\<close>
    and \<open>delaunaycut.exportDebugGC\<close> of the configuration file, when present;
  \<^item> \<open>is_directory\<close>: whether the directory of the output mesh exists;
  \<^item> \<open>FileExists\<close>: whether the plan file \<open>hexahsToReconstruct.bin\<close> exists when
    \<open>case eAuto\<close> asks;
  \<^item> \<open>loadArrayFromFile\<close>: the content of that file;
  \<^item> \<open>computeReconstructionPlanBinSearch\<close>: the plan computed for a budget;
  \<^item> \<open>getNTracks\<close>: the number of track candidates of the grid cloned at a resolution
    (an \<open>unsigned long\<close>, 64 bits; \<open>int\<close> is 32 bits);
  \<^item> \<open>createMesh\<close>: the mesh that the reconstruction at a resolution extracts.
\<close>

record env =
  parse_command_line ::
    "option_description list \<Rightarrow> string list \<Rightarrow> po_error + (string \<times> string) list"
  ini_gridLevel0 :: "32 word option"
  ini_exportDebugGC :: "bool option"
  is_directory :: bool
  FileExists :: bool
  loadArrayFromFile :: "point3d list"
  computeReconstructionPlanBinSearch :: "32 word \<Rightarrow> point3d list"
  getNTracks :: "32 word \<Rightarrow> 64 word"
  createMesh :: "32 word \<Rightarrow> mv_mesh"

datatype event =
    Cout string
  | Cout_value string int
  | Cout_allParams string
  | Cerr_ERROR po_error
  | Call_multiviewInputParams string string string
  | Call_multiviewParams
  | Call_mv_prematch_cams
  | Call_create_directory
  | Call_generateSpace "32 word" "32 word"
  | Call_FileExists string
  | Call_loadArrayFromFile string
  | Call_computeReconstructionPlanBinSearch "32 word"
  | Call_saveArrayToFile string "point3d list"
  | Call_reconstructSpaceAccordingToVoxelsArray string
  | Call_joinMeshes string
  | Call_saveToBin string
  | Call_saveMvMeshToObj string
  | Call_loadLargeScalePtsCams "point3d list"
  | Call_saveArrayOfArraysToFile string
  | Call_cloneSpaceIfDoesNotExists "32 word"
  | Call_getNTracks "32 word"
  | Call_loadSpaceFromFile "32 word"
  | Call_reconstructVoxel
  | Call_graphCutPostProcessing
  | Call_saveMeshColoredByCamsConsistency
  | Call_createMesh
  | Call_createPtsCams
  | Call_getSortedUsedCams
  | Call_meshPostProcessing
  | Call_printfElapsedTime

datatype exception = runtime_error string | invalid_argument string

text \<open>
  How a piece of \<open>main\<close> ends: control runs on to the next statement, \<open>main\<close>
  returns an exit status, an exception leaves \<open>main\<close> (none is caught after the
  option handling), or a signed overflow has made the behaviour undefined.
\<close>

datatype control = Running | Returned int | Thrown exception | Undefined_behaviour

definition EXIT_SUCCESS :: int where
  "EXIT_SUCCESS = 0"

definition EXIT_FAILURE :: int where
  "EXIT_FAILURE = 1"

subsection \<open>Option handling\<close>

text \<open>
  The \<open>try\<close> block: the command line is parsed and stored; usage is printed, and
  \<open>main\<close> returns success, when the map counts an option \<open>help\<close> or \<open>argc\<close> is
  1; otherwise \<open>notify\<close> assigns the variables. \<open>argc\<close> is one more than the
  number of arguments, which follow the program name. The result is the exception
  thrown inside the block, or else the early return or the assigned variables.
\<close>

definition try_block :: "env \<Rightarrow> string list \<Rightarrow> po_error + ((event list \<times> control) + params)" where
  "try_block env args =
     (case parse_command_line env allParams args of
        Inl e \<Rightarrow> Inl e
      | Inr occurrences \<Rightarrow>
          (case store allParams occurrences of
             Inl e \<Rightarrow> Inl e
           | Inr vm \<Rightarrow>
               if 0 < vm_count vm ''help'' \<or> length args + 1 = 1
               then Inr (Inl ([Cout_allParams []], Returned EXIT_SUCCESS))
               else (case notify allParams vm of
                       Inl e \<Rightarrow> Inl e
                     | Inr ps \<Rightarrow> Inr (Inr ps))))"

text \<open>The two handlers, in the order of the \<open>catch\<close> clauses; they do the same.\<close>

definition catch_handlers :: "po_error \<Rightarrow> event list \<times> control" where
  "catch_handlers e =
     (case e of
        required_option \<Rightarrow>
          ([Cerr_ERROR e, Cout_allParams (''Usage:'' @ [CHR 0x0A, CHR 0x0A])], Returned EXIT_FAILURE)
      | _ \<Rightarrow>
          ([Cerr_ERROR e, Cout_allParams (''Usage:'' @ [CHR 0x0A, CHR 0x0A])], Returned EXIT_FAILURE))"

subsection \<open>The resolution search of the single-block case\<close>

text \<open>
  \<open>ntracks > maxPts\<close> compares an \<open>unsigned long\<close> (64 bits) with an \<open>int\<close>: the
  \<open>int\<close> is converted to \<open>unsigned long\<close>, by sign extension, and the comparison is
  unsigned.
\<close>

definition exceeds_budget :: "params \<Rightarrow> 64 word \<Rightarrow> bool" where
  "exceeds_budget ps ntracks = ((scast (maxPts ps) :: 64 word) < ntracks)"

text \<open>
  \<open>t = (double)ntracks / (double)maxPts\<close> and the test \<open>t < 2.0\<close>. The quotient is
  written over the reals. Rounding to \<open>double\<close> does not change the outcome of the
  test: the divisor is exact, a dividend that is rounded is at least \<open>2^53\<close>, and a
  quotient of integers below 2 with a divisor under \<open>2^31\<close> stays below 2 by more than
  the rounding error. A zero divisor gives an infinite (or undefined) \<open>double\<close>, for
  which the test is false.
\<close>

definition downsample_slow :: "params \<Rightarrow> 64 word \<Rightarrow> bool" where
  "downsample_slow ps ntracks =
     (if sint (maxPts ps) = 0 then False
      else real (unat ntracks) / real_of_int (sint (maxPts ps)) < 2)"

text \<open>
  \<open>ocTreeDim*0.5\<close> is a \<open>double\<close> product, exact for a 32-bit integer; the
  assignment to the \<open>int\<close> truncates toward zero.
\<close>

definition truncate_double :: "real \<Rightarrow> int" where
  "truncate_double x = (if 0 \<le> x then \<lfloor>x\<rfloor> else \<lceil>x\<rceil>)"

definition times_half :: "32 word \<Rightarrow> 32 word" where
  "times_half ocTreeDim = word_of_int (truncate_double (real_of_int (sint ocTreeDim) * 0.5))"

text \<open>
  One iteration of \<open>while(ntracks > maxPts)\<close>, from the state (events, \<open>ocTreeDim\<close>,
  \<open>ntracks\<close>). \<open>Inl\<close> is the signed overflow of \<open>ocTreeDim-100\<close>.
\<close>

definition search_body ::
  "env \<Rightarrow> params \<Rightarrow> event list \<times> 32 word \<times> 64 word \<Rightarrow>
     event list + event list \<times> 32 word \<times> 64 word" where
  "search_body env ps s =
     (case s of (evs, ocTreeDim, _) \<Rightarrow>
        let ntracks = getNTracks env ocTreeDim;
            evs1 = evs @ [Call_cloneSpaceIfDoesNotExists ocTreeDim,
                          Call_getNTracks ocTreeDim,
                          Cout_value ''Number of track candidates: '' (uint ntracks)]
        in if exceeds_budget ps ntracks
           then let evs2 = evs1 @ [Cout_value ''ocTreeDim: '' (sint ocTreeDim),
                                   Cout (''downsample: '' @
                                     (if downsample_slow ps ntracks then ''slow'' else ''fast''))]
                in if downsample_slow ps ntracks
                   then (if sint ocTreeDim - 100 < - (2 ^ 31) then Inl evs2
                         else Inr (evs2, ocTreeDim - 100, ntracks))
                   else Inr (evs2, times_half ocTreeDim, ntracks)
           else Inr (evs1, ocTreeDim, ntracks))"

text \<open>The loop itself. A run of the loop that never leaves it has the value \<open>None\<close>.\<close>

partial_function (option) search_loop ::
  "env \<Rightarrow> params \<Rightarrow> event list \<times> 32 word \<times> 64 word \<Rightarrow>
     (event list + event list \<times> 32 word \<times> 64 word) option" where
  "search_loop env ps s =
     (if exceeds_budget ps (snd (snd s))
      then (case search_body env ps s of
              Inl evs \<Rightarrow> Some (Inl evs)
            | Inr s' \<Rightarrow> search_loop env ps s')
      else Some (Inr s))"

declare search_loop.simps [code]

subsection \<open>The cases of the switch\<close>

text \<open>The statements of \<open>case eAuto\<close>, up to the closing brace of its block.\<close>

definition block_eAuto :: "env \<Rightarrow> params \<Rightarrow> 32 word \<Rightarrow> event list \<Rightarrow> event list \<times> control" where
  "block_eAuto env ps ocTreeDim evs =
     (let voxelsArrayFileName = ''hexahsToReconstruct.bin'';
          voxelsArray = (if FileExists env then loadArrayFromFile env
                         else computeReconstructionPlanBinSearch env (maxPts ps))
      in (evs @
          [Cout ''--- meshing partitioning: auto'',
           Call_generateSpace (maxPtsPerVoxel ps) ocTreeDim,
           Call_FileExists voxelsArrayFileName] @
          (if FileExists env
           then [Cout (''Voxels array already computed, reload from file: '' @
                   voxelsArrayFileName),
                 Call_loadArrayFromFile voxelsArrayFileName]
           else [Cout ''Compute voxels array'',
                 Call_computeReconstructionPlanBinSearch (maxPts ps),
                 Call_saveArrayToFile voxelsArrayFileName voxelsArray]) @
          [Call_reconstructSpaceAccordingToVoxelsArray voxelsArrayFileName,
           Call_joinMeshes voxelsArrayFileName,
           Cout ''Saving joined meshes'',
           Call_saveToBin ''denseReconstruction.bin'',
           Call_saveMvMeshToObj (outputMesh ps),
           Call_loadLargeScalePtsCams voxelsArray,
           Call_saveArrayOfArraysToFile ''meshPtsCamsFromDGC.bin''],
          Running))"

text \<open>
  \<open>case eSingleBlock\<close> after its loop: the reconstruction of the whole scene at the
  resolution found, the test of the mesh, and the export.
\<close>

definition singleBlock_reconstruct ::
  "env \<Rightarrow> params \<Rightarrow> event list \<times> 32 word \<times> 64 word \<Rightarrow> event list \<times> control" where
  "singleBlock_reconstruct env ps s =
     (case s of (evs, ocTreeDim, ntracks) \<Rightarrow>
        let exportDebugGC = (case ini_exportDebugGC env of None \<Rightarrow> False | Some b \<Rightarrow> b);
            evs1 = evs @
              [Cout_value ''Number of tracks: '' (uint ntracks),
               Cout_value ''ocTreeDim: '' (sint ocTreeDim),
               Call_loadSpaceFromFile ocTreeDim,
               Call_reconstructVoxel,
               Call_graphCutPostProcessing] @
              (if exportDebugGC then [Call_saveMeshColoredByCamsConsistency] else []) @
              [Call_createMesh];
            mesh = createMesh env ocTreeDim
        in if pts mesh = [] then (evs1, Thrown (runtime_error ''Empty mesh''))
           else (evs1 @
                 [Call_createPtsCams,
                  Call_getSortedUsedCams,
                  Call_meshPostProcessing,
                  Call_saveToBin ''denseReconstruction.bin'',
                  Call_saveArrayOfArraysToFile ''meshPtsCamsFromDGC.bin'',
                  Call_saveMvMeshToObj (outputMesh ps)],
                 Running))"

text \<open>
  The statements of \<open>case eSingleBlock\<close>: \<open>ntracks\<close> starts as the largest
  \<open>unsigned long\<close>.
\<close>

definition block_eSingleBlock ::
  "env \<Rightarrow> params \<Rightarrow> 32 word \<Rightarrow> event list \<Rightarrow> (event list \<times> control) option" where
  "block_eSingleBlock env ps ocTreeDim evs =
     (case search_loop env ps
             (evs @ [Cout ''--- meshing partitioning: single block'',
                     Call_generateSpace (maxPtsPerVoxel ps) ocTreeDim],
              ocTreeDim, - 1) of
        None \<Rightarrow> None
      | Some (Inl evs') \<Rightarrow> Some (evs', Undefined_behaviour)
      | Some (Inr s) \<Rightarrow> Some (singleBlock_reconstruct env ps s))"

text \<open>
  The switch. No case ends with \<open>break\<close>: control that reaches the end of a block
  enters the statements of the next label.
\<close>

definition from_eUndefined :: "event list \<Rightarrow> (event list \<times> control) option" where
  "from_eUndefined evs = Some (evs, Thrown (invalid_argument ''Partitioning not defined''))"

definition from_eSingleBlock ::
  "env \<Rightarrow> params \<Rightarrow> 32 word \<Rightarrow> event list \<Rightarrow> (event list \<times> control) option" where
  "from_eSingleBlock env ps ocTreeDim evs =
     (case block_eSingleBlock env ps ocTreeDim evs of
        None \<Rightarrow> None
      | Some (evs', Running) \<Rightarrow> from_eUndefined evs'
      | Some (evs', c) \<Rightarrow> Some (evs', c))"

definition from_eAuto ::
  "env \<Rightarrow> params \<Rightarrow> 32 word \<Rightarrow> event list \<Rightarrow> (event list \<times> control) option" where
  "from_eAuto env ps ocTreeDim evs =
     (case block_eAuto env ps ocTreeDim evs of
        (evs', Running) \<Rightarrow> from_eSingleBlock env ps ocTreeDim evs'
      | (evs', c) \<Rightarrow> Some (evs', c))"

definition switch_partitioning ::
  "env \<Rightarrow> params \<Rightarrow> 32 word \<Rightarrow> event list \<Rightarrow> (event list \<times> control) option" where
  "switch_partitioning env ps ocTreeDim evs =
     (case partitioning ps of
        eAuto \<Rightarrow> from_eAuto env ps ocTreeDim evs
      | eSingleBlock \<Rightarrow> from_eSingleBlock env ps ocTreeDim evs
      | eUndefined \<Rightarrow> from_eUndefined evs)"

subsection \<open>main\<close>

text \<open>
  After the option handling: the configuration is read, the output directory is created
  when it is missing, the switch runs, and control that leaves the switch prints the
  elapsed time and returns success.
\<close>

definition main_body :: "env \<Rightarrow> params \<Rightarrow> (event list \<times> control) option" where
  "main_body env ps =
     (let ocTreeDim = (case ini_gridLevel0 env of None \<Rightarrow> 1024 | Some n \<Rightarrow> n);
          evs = [Cout (''ini file: '' @ iniFilepath ps),
                 Call_multiviewInputParams (iniFilepath ps) (depthMapFolder ps)
                   (depthMapFilterFolder ps),
                 Call_multiviewParams,
                 Call_mv_prematch_cams] @
                (if \<not> is_directory env then [Call_create_directory] else [])
      in case switch_partitioning env ps ocTreeDim evs of
           None \<Rightarrow> None
         | Some (evs', Running) \<Rightarrow> Some (evs' @ [Call_printfElapsedTime], Returned EXIT_SUCCESS)
         | Some (evs', c) \<Rightarrow> Some (evs', c))"

definition main :: "env \<Rightarrow> string list \<Rightarrow> (event list \<times> control) option" where
  "main env args =
     (case try_block env args of
        Inl e \<Rightarrow> Some (catch_handlers e)
      | Inr (Inl early) \<Rightarrow> Some early
      | Inr (Inr ps) \<Rightarrow> main_body env ps)"

text \<open>
  The events that are work on the scene: generating or cloning the space, planning,
  reconstructing, merging and exporting. Printing, the option handling and the set-up of
  the camera parameters are not.
\<close>

fun reconstruction_work :: "event \<Rightarrow> bool" where
  "reconstruction_work (Cout _) = False"
| "reconstruction_work (Cout_value _ _) = False"
| "reconstruction_work (Cout_allParams _) = False"
| "reconstruction_work (Cerr_ERROR _) = False"
| "reconstruction_work (Call_multiviewInputParams _ _ _) = False"
| "reconstruction_work Call_multiviewParams = False"
| "reconstruction_work Call_mv_prematch_cams = False"
| "reconstruction_work Call_create_directory = False"
| "reconstruction_work Call_printfElapsedTime = False"
| "reconstruction_work _ = True"

text \<open>The events that only the multi-voxel path causes, and those of the single block.\<close>

fun multi_voxel_work :: "event \<Rightarrow> bool" where
  "multi_voxel_work (Call_FileExists _) = True"
| "multi_voxel_work (Call_loadArrayFromFile _) = True"
| "multi_voxel_work (Call_computeReconstructionPlanBinSearch _) = True"
| "multi_voxel_work (Call_saveArrayToFile _ _) = True"
| "multi_voxel_work (Call_reconstructSpaceAccordingToVoxelsArray _) = True"
| "multi_voxel_work (Call_joinMeshes _) = True"
| "multi_voxel_work (Call_loadLargeScalePtsCams _) = True"
| "multi_voxel_work _ = False"

fun single_block_work :: "event \<Rightarrow> bool" where
  "single_block_work (Call_cloneSpaceIfDoesNotExists _) = True"
| "single_block_work (Call_getNTracks _) = True"
| "single_block_work (Call_loadSpaceFromFile _) = True"
| "single_block_work Call_reconstructVoxel = True"
| "single_block_work Call_graphCutPostProcessing = True"
| "single_block_work Call_saveMeshColoredByCamsConsistency = True"
| "single_block_work Call_createMesh = True"
| "single_block_work Call_createPtsCams = True"
| "single_block_work Call_getSortedUsedCams = True"
| "single_block_work Call_meshPostProcessing = True"
| "single_block_work _ = False"

subsection \<open>Concrete runs\<close>

text \<open>
  A lexer for the concrete runs below. It accepts \<open>--name=value\<close> and
  \<open>--name value\<close> for a declared long name and \<open>-c value\<close> for a declared short
  name, and reports any other token as an unknown option. The general theorems hold
  for every lexer.
\<close>

definition token_name :: "option_description list \<Rightarrow> string \<Rightarrow> string option" where
  "token_name ds tok =
     (if take 2 tok = ''--''
      then map_option long_name
             (find (\<lambda>d. long_name d = takeWhile (\<lambda>c. c \<noteq> CHR ''='') (drop 2 tok)) ds)
      else if take 1 tok = ''-'' \<and> length tok = 2
      then map_option long_name (find (\<lambda>d. short_name d = Some (tok ! 1)) ds)
      else None)"

definition token_value :: "string \<Rightarrow> string option" where
  "token_value tok =
     (if take 2 tok = ''--'' \<and> CHR ''='' \<in> set tok
      then Some (drop 1 (dropWhile (\<lambda>c. c \<noteq> CHR ''='') tok))
      else None)"

fun example_lexer ::
  "option_description list \<Rightarrow> string list \<Rightarrow> po_error + (string \<times> string) list" where
  "example_lexer ds [] = Inr []"
| "example_lexer ds (tok # toks) =
     (case token_name ds tok of
        None \<Rightarrow> Inl (unknown_option tok)
      | Some name \<Rightarrow>
          (case token_value tok of
             Some v \<Rightarrow> map_sum id (Cons (name, v)) (example_lexer ds toks)
           | None \<Rightarrow>
               (case toks of
                  [] \<Rightarrow> Inl (invalid_command_line_syntax tok)
                | v # toks' \<Rightarrow> map_sum id (Cons (name, v)) (example_lexer ds toks'))))"

text \<open>
  A scene whose grid holds 13 million track candidates at resolution 1024, 7 million at
  512 and 5 million below; no plan is cached; the mesh is one triangle.
\<close>

definition example_env :: env where
  "example_env =
     \<lparr>parse_command_line = example_lexer,
      ini_gridLevel0 = None,
      ini_exportDebugGC = None,
      is_directory = True,
      FileExists = False,
      loadArrayFromFile = [],
      computeReconstructionPlanBinSearch = (\<lambda>_. []),
      getNTracks = (\<lambda>d. if d = 1024 then 13000000 else if d = 512 then 7000000 else 5000000),
      createMesh = (\<lambda>_. \<lparr>pts = [(0, 0, 0), (1, 0, 0), (0, 1, 0)], tris = [(0, 1, 2)]\<rparr>)\<rparr>"

definition required_args :: "string list" where
  "required_args =
     [''--ini'', ''mvs.ini'', ''--depthMapFolder'', ''dm'',
      ''--depthMapFilterFolder'', ''dmf'', ''-o'', ''out/mesh.obj'']"

text \<open>The variables of \<open>main\<close> after these arguments, with the defaults for the rest.\<close>

definition example_params :: params where
  "example_params =
     \<lparr>iniFilepath = ''mvs.ini'',
      outputMesh = ''out/mesh.obj'',
      depthMapFolder = ''dm'',
      depthMapFilterFolder = ''dmf'',
      partitioning = eSingleBlock,
      maxPts = 6000000,
      maxPtsPerVoxel = 6000000\<rparr>"

text \<open>The same scene when the labelling leaves no face: the vertices are there, no triangle.\<close>

definition faceless_env :: env where
  "faceless_env =
     example_env\<lparr>createMesh := (\<lambda>_. \<lparr>pts = [(0, 0, 0), (1, 0, 0), (0, 1, 0)], tris = []\<rparr>)\<rparr>"

text \<open>A scene whose grid holds one track candidate at every resolution.\<close>

definition one_track_env :: env where
  "one_track_env = example_env\<lparr>getNTracks := (\<lambda>_. 1)\<rparr>"

text \<open>The same scene when the reconstruction returns a mesh without a vertex.\<close>

definition empty_mesh_env :: env where
  "empty_mesh_env = example_env\<lparr>createMesh := (\<lambda>_. \<lparr>pts = [], tris = []\<rparr>)\<rparr>"

text \<open>The same scene when a plan of one voxel is cached.\<close>

definition cached_env :: env where
  "cached_env =
     example_env\<lparr>FileExists := True,
       loadArrayFromFile := [(0, 0, 0), (1, 0, 0), (1, 1, 0), (0, 1, 0),
                             (0, 0, 1), (1, 0, 1), (1, 1, 1), (0, 1, 1)]\<rparr>"

text \<open>
  The events of the example runs, in order: the set-up before the switch, the block of
  \<open>case eAuto\<close> without a cached plan, and the block of \<open>case eSingleBlock\<close>, whose
  search visits the resolutions 1024, 512 and 412.
\<close>

definition setup_events :: "event list" where
  "setup_events =
     [Cout ''ini file: mvs.ini'',
      Call_multiviewInputParams ''mvs.ini'' ''dm'' ''dmf'',
      Call_multiviewParams,
      Call_mv_prematch_cams]"

definition auto_events :: "event list" where
  "auto_events =
     [Cout ''--- meshing partitioning: auto'',
      Call_generateSpace 6000000 1024,
      Call_FileExists ''hexahsToReconstruct.bin'',
      Cout ''Compute voxels array'',
      Call_computeReconstructionPlanBinSearch 6000000,
      Call_saveArrayToFile ''hexahsToReconstruct.bin'' [],
      Call_reconstructSpaceAccordingToVoxelsArray ''hexahsToReconstruct.bin'',
      Call_joinMeshes ''hexahsToReconstruct.bin'',
      Cout ''Saving joined meshes'',
      Call_saveToBin ''denseReconstruction.bin'',
      Call_saveMvMeshToObj ''out/mesh.obj'',
      Call_loadLargeScalePtsCams [],
      Call_saveArrayOfArraysToFile ''meshPtsCamsFromDGC.bin'']"

definition search_events :: "event list" where
  "search_events =
     [Call_cloneSpaceIfDoesNotExists 1024,
      Call_getNTracks 1024,
      Cout_value ''Number of track candidates: '' 13000000,
      Cout_value ''ocTreeDim: '' 1024,
      Cout ''downsample: fast'',
      Call_cloneSpaceIfDoesNotExists 512,
      Call_getNTracks 512,
      Cout_value ''Number of track candidates: '' 7000000,
      Cout_value ''ocTreeDim: '' 512,
      Cout ''downsample: slow'',
      Call_cloneSpaceIfDoesNotExists 412,
      Call_getNTracks 412,
      Cout_value ''Number of track candidates: '' 5000000]"

definition single_block_events :: "event list" where
  "single_block_events =
     [Cout ''--- meshing partitioning: single block'',
      Call_generateSpace 6000000 1024] @
     search_events @
     [Cout_value ''Number of tracks: '' 5000000,
      Cout_value ''ocTreeDim: '' 412,
      Call_loadSpaceFromFile 412,
      Call_reconstructVoxel,
      Call_graphCutPostProcessing,
      Call_createMesh,
      Call_createPtsCams,
      Call_getSortedUsedCams,
      Call_meshPostProcessing,
      Call_saveToBin ''denseReconstruction.bin'',
      Call_saveArrayOfArraysToFile ''meshPtsCamsFromDGC.bin'',
      Call_saveMvMeshToObj ''out/mesh.obj'']"

text \<open>The events that print the options: the usage text.\<close>

definition is_usage :: "event \<Rightarrow> bool" where
  "is_usage e = (case e of Cout_allParams _ \<Rightarrow> True | _ \<Rightarrow> False)"

text \<open>The events of a result of the search, whether it ended in an overflow or not.\<close>

fun result_events :: "event list + event list \<times> 32 word \<times> 64 word \<Rightarrow> event list" where
  "result_events (Inl evs) = evs"
| "result_events (Inr s) = fst s"

section \<open>Properties of the rig\<close>

lemma isInitialized_loop_iff:
  "isInitialized_loop sps = (\<exists>sp \<in> set sps. status sp \<noteq> UNINITIALIZED)"
  by (induction sps) auto

lemma isInitialized_loop_replicate_default:
  "isInitialized_loop (replicate k (RigSubPose_default p)) = False"
  by (induction k) (simp_all add: RigSubPose_default_def RigSubPose_ctor_def)

text \<open>
  Claim C10. \<open>isInitialized\<close> is true exactly when some sub-pose has a status other
  than \<open>UNINITIALIZED\<close>. A rig built by \<open>Rig(n)\<close> has \<open>n\<close> sub-poses, every index
  below \<open>n\<close> holds the default sub-pose (status \<open>UNINITIALIZED\<close>, default pose; an
  index from \<open>n\<close> on is out of range), and the rig is not initialized.
\<close>

theorem C10_rig_isInitialized:
  "isInitialized r = (\<exists>sp \<in> set (getSubPoses r). status sp \<noteq> UNINITIALIZED)
   \<and> getNbSubPoses (Rig_ctor p n) = unat n
   \<and> (\<forall>i. getSubPose (Rig_ctor p n) i =
          (if i < n then Inr \<lparr>status = UNINITIALIZED, pose = p\<rparr> else Inl out_of_range))
   \<and> isInitialized (Rig_ctor p n) = False"
proof -
  have a: "isInitialized r = (\<exists>sp \<in> set (getSubPoses r). status sp \<noteq> UNINITIALIZED)"
    by (simp add: isInitialized_def getSubPoses_def isInitialized_loop_iff)
  have b: "getNbSubPoses (Rig_ctor p n) = unat n"
    by (simp add: getNbSubPoses_def Rig_ctor_def)
  have c: "getSubPose (Rig_ctor p n) i =
          (if i < n then Inr \<lparr>status = UNINITIALIZED, pose = p\<rparr> else Inl out_of_range)" for i
    by (simp add: getSubPose_def Rig_ctor_def RigSubPose_default_def RigSubPose_ctor_def
        word_less_nat_alt)
  have d: "isInitialized (Rig_ctor p n) = False"
    by (simp add: isInitialized_def Rig_ctor_def isInitialized_loop_replicate_default)
  from a b c d show ?thesis by blast
qed

theorem C10_rig_isInitialized_witness:
  "isInitialized \<lparr>subPoses = [\<lparr>status = UNINITIALIZED, pose = (0::nat)\<rparr>,
                               \<lparr>status = ESTIMATED, pose = 7\<rparr>]\<rparr>
   \<and> getNbSubPoses (Rig_ctor (0::nat) 3) = 3
   \<and> getSubPose (Rig_ctor (0::nat) 3) 2 = Inr \<lparr>status = UNINITIALIZED, pose = 0\<rparr>
   \<and> getSubPose (Rig_ctor (0::nat) 3) 3 = Inl out_of_range
   \<and> \<not> isInitialized (Rig_ctor (0::nat) 3)"
  using C10_rig_isInitialized
    [of "\<lparr>subPoses = [\<lparr>status = UNINITIALIZED, pose = (0::nat)\<rparr>,
                      \<lparr>status = ESTIMATED, pose = 7\<rparr>]\<rparr>" "0::nat" 3]
  by (simp add: getSubPoses_def)

section \<open>Facts about the option handling\<close>

lemma find_SomeD: "find P xs = Some x \<Longrightarrow> P x \<and> x \<in> set xs"
  by (induction xs) (auto split: if_splits)

lemma store_options_no_key:
  assumes "k \<notin> long_name ` set ds" and "k \<notin> fst ` set vm"
    and "store_options ds occ vm = Inr vm'"
  shows "k \<notin> fst ` set vm'"
  using assms
proof (induction ds occ vm rule: store_options.induct)
  case (1 ds vm)
  then show ?case by simp
next
  case (2 ds name v occurrences vm)
  from "2.prems"(3) obtain d x where d: "find (\<lambda>d. long_name d = name) ds = Some d"
    and fresh: "map_of vm name = None"
    and x: "validate (semantic d) v = Inr x"
    and rest: "store_options ds occurrences (vm @ [(name, x)]) = Inr vm'"
    by (auto split: option.splits if_splits sum.splits)
  from find_SomeD [OF d] "2.prems"(1) have "name \<noteq> k" by auto
  with "2.prems"(2) have "k \<notin> fst ` set (vm @ [(name, x)])" by auto
  from "2.IH" [OF d _ x "2.prems"(1) this rest] fresh show ?case by simp
qed

lemma apply_defaults_no_key:
  assumes "k \<notin> long_name ` set ds" and "k \<notin> fst ` set vm"
  shows "k \<notin> fst ` set (apply_defaults ds vm)"
  using assms
  by (induction ds vm rule: apply_defaults.induct) (auto split: option.splits)

lemma store_no_help:
  assumes "store allParams occ = Inr vm"
  shows "vm_count vm ''help'' = 0"
proof -
  from assms obtain vm0 where a: "store_options allParams occ [] = Inr vm0"
    and b: "vm = apply_defaults allParams vm0"
    by (auto simp: store_def split: sum.splits)
  have h: "''help'' \<notin> long_name ` set allParams"
    by (simp add: allParams_def requiredParams_def optionalParams_def)
  have "''help'' \<notin> fst ` set vm0"
    by (rule store_options_no_key [OF h _ a]) simp
  from apply_defaults_no_key [OF h this] b have "''help'' \<notin> fst ` set vm" by simp
  then show ?thesis by (simp add: vm_count_def map_of_eq_None_iff)
qed

lemma try_block_early:
  assumes "try_block env args = Inr (Inl early)"
  shows "args = [] \<and> early = ([Cout_allParams []], Returned EXIT_SUCCESS)"
  using assms store_no_help
  by (auto simp: try_block_def split: sum.splits if_splits)

lemma store_options_absent_key:
  assumes "k \<notin> fst ` set occ" and "k \<notin> fst ` set vm"
    and "store_options ds occ vm = Inr vm'"
  shows "k \<notin> fst ` set vm'"
  using assms
proof (induction ds occ vm rule: store_options.induct)
  case (1 ds vm)
  then show ?case by simp
next
  case (2 ds name v occurrences vm)
  from "2.prems"(3) obtain d x where d: "find (\<lambda>d. long_name d = name) ds = Some d"
    and fresh: "map_of vm name = None"
    and x: "validate (semantic d) v = Inr x"
    and rest: "store_options ds occurrences (vm @ [(name, x)]) = Inr vm'"
    by (auto split: option.splits if_splits sum.splits)
  from "2.prems"(1) have "name \<noteq> k" and occ: "k \<notin> fst ` set occurrences" by auto
  with "2.prems"(2) have "k \<notin> fst ` set (vm @ [(name, x)])" by auto
  from "2.IH" [OF d _ x occ this rest] fresh show ?case by simp
qed

lemma apply_defaults_absent_key:
  assumes "\<forall>d \<in> set ds. long_name d = k \<longrightarrow> default_value d = None"
    and "map_of vm k = None"
  shows "map_of (apply_defaults ds vm) k = None"
  using assms
proof (induction ds vm rule: apply_defaults.induct)
  case (1 vm)
  then show ?case by simp
next
  case (2 d ds vm)
  show ?case
  proof (cases "default_value d")
    case None
    with 2 show ?thesis by simp
  next
    case (Some x)
    with "2.prems"(1) have "long_name d \<noteq> k" by auto
    with "2.prems"(2) have "map_of (vm @ [(long_name d, x)]) k = None" by simp
    with 2 Some show ?thesis by simp
  qed
qed

lemma store_required_absent:
  assumes "store allParams occ = Inr vm"
    and "k \<in> set [''ini'', ''depthMapFolder'', ''depthMapFilterFolder'', ''output'']"
    and "k \<notin> fst ` set occ"
  shows "notify allParams vm = Inl required_option"
proof -
  from assms(1) obtain vm0 where a: "store_options allParams occ [] = Inr vm0"
    and b: "vm = apply_defaults allParams vm0"
    by (auto simp: store_def split: sum.splits)
  have "k \<notin> fst ` set vm0"
    by (rule store_options_absent_key [OF assms(3) _ a]) simp
  moreover from assms(2) have "\<forall>d \<in> set allParams. long_name d = k \<longrightarrow> default_value d = None"
    by (auto simp: allParams_def requiredParams_def optionalParams_def)
  ultimately have "map_of vm k = None"
    unfolding b by (simp add: apply_defaults_absent_key map_of_eq_None_iff)
  with assms(2) have "list_ex (\<lambda>d. is_required d \<and> map_of vm (long_name d) = None) allParams"
    by (auto simp: allParams_def requiredParams_def optionalParams_def)
  then show ?thesis by (simp add: notify_def)
qed

lemma catch_handlers_eq:
  "catch_handlers e = ([Cerr_ERROR e, Cout_allParams (''Usage:'' @ [CHR 0x0A, CHR 0x0A])],
     Returned EXIT_FAILURE)"
  by (cases e) (simp_all add: catch_handlers_def)

lemma validate_EPartitioning:
  "validate EPartitioning_value v =
     (if v = [] \<or> list_ex isspace v then Inl (invalid_option_value v)
      else Inr (Partitioning_value (EPartitioning_stringToEnum v)))"
proof (cases "list_ex isspace v")
  case True
  then obtain c where "c \<in> set v" "isspace c" by (auto simp: list_ex_iff)
  then have "dropWhile (\<lambda>c. \<not> isspace c) v \<noteq> []" by auto
  with True show ?thesis
    by (simp add: validate_def lexical_cast_EPartitioning_def EPartitioning_extract_def
        extract_string_def Let_def)
next
  case False
  then have "\<forall>c \<in> set v. \<not> isspace c" by (simp add: list_ex_iff)
  then have tw: "takeWhile (\<lambda>c. \<not> isspace c) v = v"
    and dw: "dropWhile (\<lambda>c. \<not> isspace c) v = []"
    by simp_all
  from False show ?thesis
    by (simp add: validate_def lexical_cast_EPartitioning_def EPartitioning_extract_def
        extract_string_def Let_def tw dw)
qed

section \<open>Facts about the resolution search\<close>


lemma search_body_events:
  "\<exists>more. result_events (search_body env ps s) = fst s @ more
      \<and> list_ex single_block_work more \<and> \<not> list_ex multi_voxel_work more"
  by (cases s) (auto simp: search_body_def Let_def)

lemma search_loop_events:
  assumes "search_loop env ps s = Some y"
  shows "\<exists>more. result_events y = fst s @ more \<and> \<not> list_ex multi_voxel_work more
           \<and> (isl y \<longrightarrow> list_ex single_block_work more)"
proof (rule search_loop.raw_induct
    [where P = "\<lambda>env ps s y. \<exists>more. result_events y = fst s @ more
           \<and> \<not> list_ex multi_voxel_work more
           \<and> (isl y \<longrightarrow> list_ex single_block_work more)",
      OF _ assms], goal_cases)
  case (1 f env ps s y)
  show ?case
  proof (cases "exceeds_budget ps (snd (snd s))")
    case False
    with 1(2) show ?thesis by auto
  next
    case True
    obtain more where m: "result_events (search_body env ps s) = fst s @ more"
      "list_ex single_block_work more" "\<not> list_ex multi_voxel_work more"
      using search_body_events by blast
    show ?thesis
    proof (cases "search_body env ps s")
      case (Inl evs)
      with True 1(2) m show ?thesis by auto
    next
      case (Inr s')
      with True 1(2) have "f env ps s' = Some y" by simp
      from 1(1)[OF this] obtain more' where
        "result_events y = fst s' @ more'" "\<not> list_ex multi_voxel_work more'"
        "isl y \<longrightarrow> list_ex single_block_work more'" by blast
      with m Inr show ?thesis by auto
    qed
  qed
qed


lemma truncate_half:
  "truncate_double (real_of_int k * 0.5) = sgn k * (\<bar>k\<bar> div 2)"
proof (cases "0 \<le> k")
  case True
  have "\<lfloor>real_of_int k / real_of_int 2\<rfloor> = k div 2"
    by (rule floor_divide_of_int_eq)
  with True show ?thesis
    by (cases "k = 0") (simp_all add: truncate_double_def sgn_if)
next
  case False
  then have neg: "k < 0" by simp
  have "\<lfloor>real_of_int (- k) / real_of_int 2\<rfloor> = (- k) div 2"
    by (rule floor_divide_of_int_eq)
  then have "\<lceil>real_of_int k / 2\<rceil> = - ((- k) div 2)"
    by (simp add: ceiling_def)
  with neg show ?thesis
    by (simp add: truncate_double_def sgn_if)
qed

lemma sint_times_half:
  "sint (times_half d) = sgn (sint d) * (\<bar>sint d\<bar> div 2)"
proof -
  let ?h = "sgn (sint d) * (\<bar>sint d\<bar> div 2)"
  have lo: "- (2 ^ 31) \<le> sint d" using sint_ge [of d] by simp
  have hi: "sint d < 2 ^ 31" using sint_lt [of d] by simp
  from lo hi have "- (2 ^ 31) \<le> ?h" "?h < 2 ^ 31"
    by (auto simp: sgn_if)
  then have a: "signed_take_bit (LENGTH(32) - 1) ?h = ?h"
    by (simp add: signed_take_bit_int_eq_self)
  have b: "sint (word_of_int ?h :: 32 word) = signed_take_bit (LENGTH(32) - 1) ?h"
    by (rule sint_sbintrunc')
  from b a have "sint (word_of_int ?h :: 32 word) = ?h"
    by (rule trans)
  then show ?thesis
    unfolding times_half_def truncate_half .
qed

lemma sint_minus_100:
  assumes "- (2 ^ 31) \<le> sint (d :: 32 word) - 100"
  shows "sint (d - 100) = sint d - 100"
proof -
  have hi: "sint d < 2 ^ 31" using sint_lt [of d] by simp
  have "sint (d - 100) = signed_take_bit 31 (sint d - sint (100 :: 32 word))"
    by (simp add: sint_word_ariths)
  also have "sint (100 :: 32 word) = 100" by simp
  also have "signed_take_bit 31 (sint d - 100) = sint d - 100"
    using assms hi by (simp add: signed_take_bit_int_eq_self)
  finally show ?thesis .
qed

section \<open>Facts about the switch\<close>

lemma from_eUndefined_control:
  "from_eUndefined evs = Some (evs, Thrown (invalid_argument ''Partitioning not defined''))"
  by (simp add: from_eUndefined_def)

lemma from_eSingleBlock_not_Running:
  "from_eSingleBlock env ps d evs \<noteq> Some (evs', Running)"
  "from_eSingleBlock env ps d evs \<noteq> Some (evs', Returned c)"
  by (auto simp: from_eSingleBlock_def from_eUndefined_def block_eSingleBlock_def
      singleBlock_reconstruct_def Let_def
      split: option.splits prod.splits control.splits sum.splits if_splits)

lemma switch_not_Running:
  "switch_partitioning env ps d evs \<noteq> Some (evs', Running)"
  by (cases "partitioning ps")
     (auto simp: switch_partitioning_def from_eAuto_def block_eAuto_def Let_def
        from_eUndefined_def from_eSingleBlock_not_Running)

lemma switch_not_Returned:
  "switch_partitioning env ps d evs \<noteq> Some (evs', Returned c)"
  by (cases "partitioning ps")
     (auto simp: switch_partitioning_def from_eAuto_def block_eAuto_def Let_def
        from_eUndefined_def from_eSingleBlock_not_Running)

lemma main_body_not_Returned:
  "main_body env ps \<noteq> Some (evs', Returned c)"
proof
  assume a: "main_body env ps = Some (evs', Returned c)"
  define d where "d = (case ini_gridLevel0 env of None \<Rightarrow> (1024 :: 32 word) | Some n \<Rightarrow> n)"
  define evs where "evs = [Cout (''ini file: '' @ iniFilepath ps),
                 Call_multiviewInputParams (iniFilepath ps) (depthMapFolder ps)
                   (depthMapFilterFolder ps),
                 Call_multiviewParams,
                 Call_mv_prematch_cams] @
                (if \<not> is_directory env then [Call_create_directory] else [])"
  from a have "(case switch_partitioning env ps d evs of
           None \<Rightarrow> None
         | Some (evs', Running) \<Rightarrow> Some (evs' @ [Call_printfElapsedTime], Returned EXIT_SUCCESS)
         | Some (evs', c) \<Rightarrow> Some (evs', c)) = Some (evs', Returned c)"
    by (simp add: main_body_def d_def evs_def Let_def)
  then show False
    using switch_not_Running [of env ps d evs] switch_not_Returned [of env ps d evs]
    by (auto split: option.splits prod.splits control.splits)
qed

lemma main_with_arguments:
  "main env (a # args) \<noteq> Some (evs, Returned EXIT_SUCCESS)"
proof (cases "try_block env (a # args)")
  case (Inl e)
  then show ?thesis
    by (cases e) (simp_all add: main_def catch_handlers_def EXIT_SUCCESS_def EXIT_FAILURE_def)
next
  case (Inr r)
  show ?thesis
  proof (cases r)
    case (Inl early)
    with Inr try_block_early [of env "a # args" early] show ?thesis by simp
  next
    case (Inr ps)
    with \<open>try_block env (a # args) = Inr r\<close> main_body_not_Returned [of env ps] show ?thesis
      by (simp add: main_def)
  qed
qed

lemma main_body_eUndefined:
  assumes "partitioning ps = eUndefined"
  shows "\<exists>evs. main_body env ps = Some (evs, Thrown (invalid_argument ''Partitioning not defined''))
           \<and> \<not> list_ex reconstruction_work evs \<and> \<not> list_ex is_usage evs"
  using assms
  by (simp add: main_body_def switch_partitioning_def from_eUndefined_def Let_def is_usage_def)

lemma block_eSingleBlock_events:
  assumes "block_eSingleBlock env ps d evs = Some (evs', c)"
  shows "\<exists>more. evs' = evs @ more \<and> \<not> list_ex multi_voxel_work more
           \<and> list_ex single_block_work more"
proof -
  let ?s0 = "(evs @ [Cout ''--- meshing partitioning: single block'',
                     Call_generateSpace (maxPtsPerVoxel ps) d], d, - 1 :: 64 word)"
  from assms obtain y where y: "search_loop env ps ?s0 = Some y"
    by (auto simp: block_eSingleBlock_def split: option.splits)
  from search_loop_events [OF y] obtain more where
    m: "result_events y = fst ?s0 @ more" "\<not> list_ex multi_voxel_work more"
       "isl y \<longrightarrow> list_ex single_block_work more" by blast
  show ?thesis
  proof (cases y)
    case (Inl evs1)
    with assms y m show ?thesis
      by (auto simp: block_eSingleBlock_def)
  next
    case (Inr s)
    obtain evs1 d1 n1 where s: "s = (evs1, d1, n1)" by (cases s) auto
    with Inr assms y m show ?thesis
      by (auto simp: block_eSingleBlock_def singleBlock_reconstruct_def Let_def split: if_splits)
  qed
qed

lemma from_eSingleBlock_events:
  assumes "from_eSingleBlock env ps d evs = Some (evs', c)"
  shows "\<exists>more. evs' = evs @ more \<and> \<not> list_ex multi_voxel_work more
           \<and> list_ex single_block_work more"
proof -
  from assms obtain c' where "block_eSingleBlock env ps d evs = Some (evs', c')"
    by (auto simp: from_eSingleBlock_def from_eUndefined_def
        split: option.splits prod.splits control.splits)
  then show ?thesis by (rule block_eSingleBlock_events)
qed

section \<open>Facts about the concrete runs\<close>

lemmas option_defs = allParams_def requiredParams_def optionalParams_def

lemmas conversion_defs = validate_def lexical_cast_int_def lexical_cast_EPartitioning_def
  EPartitioning_extract_def extract_string_def EPartitioning_stringToEnum_def isspace_def
  isdigit_def

lemma example_env_fields:
  "parse_command_line example_env = example_lexer"
  "ini_gridLevel0 example_env = None"
  "ini_exportDebugGC example_env = None"
  "is_directory example_env = True"
  "FileExists example_env = False"
  "loadArrayFromFile example_env = []"
  "computeReconstructionPlanBinSearch example_env = (\<lambda>_. [])"
  "getNTracks example_env = (\<lambda>d. if d = 1024 then 13000000 else if d = 512 then 7000000 else 5000000)"
  "createMesh example_env = (\<lambda>_. \<lparr>pts = [(0, 0, 0), (1, 0, 0), (0, 1, 0)], tris = [(0, 1, 2)]\<rparr>)"
  by (simp_all add: example_env_def)

lemma other_env_fields:
  "parse_command_line faceless_env = example_lexer"
  "ini_gridLevel0 faceless_env = None"
  "ini_exportDebugGC faceless_env = None"
  "is_directory faceless_env = True"
  "getNTracks faceless_env = getNTracks example_env"
  "createMesh faceless_env = (\<lambda>_. \<lparr>pts = [(0, 0, 0), (1, 0, 0), (0, 1, 0)], tris = []\<rparr>)"
  "getNTracks empty_mesh_env = getNTracks example_env"
  "createMesh empty_mesh_env = (\<lambda>_. \<lparr>pts = [], tris = []\<rparr>)"
  "parse_command_line one_track_env = example_lexer"
  "ini_gridLevel0 one_track_env = None"
  "is_directory one_track_env = True"
  "getNTracks one_track_env = (\<lambda>_. 1)"
  "FileExists cached_env = True"
  "loadArrayFromFile cached_env = [(0, 0, 0), (1, 0, 0), (1, 1, 0), (0, 1, 0),
                             (0, 0, 1), (1, 0, 1), (1, 1, 1), (0, 1, 1)]"
  by (simp_all add: faceless_env_def empty_mesh_env_def one_track_env_def cached_env_def
      example_env_def)

lemma example_params_fields:
  "iniFilepath example_params = ''mvs.ini''"
  "outputMesh example_params = ''out/mesh.obj''"
  "depthMapFolder example_params = ''dm''"
  "depthMapFilterFolder example_params = ''dmf''"
  "partitioning example_params = eSingleBlock"
  "maxPts example_params = 6000000"
  "maxPtsPerVoxel example_params = 6000000"
  by (simp_all add: example_params_def)

lemma lexer_required_args:
  "example_lexer allParams (required_args @ extra) =
     map_sum id (\<lambda>occ. [(''ini'', ''mvs.ini''), (''depthMapFolder'', ''dm''),
        (''depthMapFilterFolder'', ''dmf''), (''output'', ''out/mesh.obj'')] @ occ)
       (example_lexer allParams extra)"
  by (cases "example_lexer allParams extra")
     (simp_all add: required_args_def option_defs token_name_def token_value_def)

lemma store_required:
  "store_options allParams
     ([(''ini'', ''mvs.ini''), (''depthMapFolder'', ''dm''),
        (''depthMapFilterFolder'', ''dmf''), (''output'', ''out/mesh.obj'')] @ occ) [] =
   store_options allParams occ
     [(''ini'', String_value ''mvs.ini''), (''depthMapFolder'', String_value ''dm''),
      (''depthMapFilterFolder'', String_value ''dmf''), (''output'', String_value ''out/mesh.obj'')]"
  by (simp add: option_defs validate_def)

lemma try_block_example:
  assumes "example_lexer allParams extra = Inr occ"
    and "store_options allParams occ
           [(''ini'', String_value ''mvs.ini''), (''depthMapFolder'', String_value ''dm''),
            (''depthMapFilterFolder'', String_value ''dmf''),
            (''output'', String_value ''out/mesh.obj'')] = Inr vm"
    and "notify allParams (apply_defaults allParams vm) = Inr ps"
  shows "try_block example_env (required_args @ extra) = Inr (Inr ps)"
proof -
  let ?all = "(''ini'', ''mvs.ini'') # (''depthMapFolder'', ''dm'') #
        (''depthMapFilterFolder'', ''dmf'') # (''output'', ''out/mesh.obj'') # occ"
  have lex: "parse_command_line example_env allParams (required_args @ extra) = Inr ?all"
    by (simp add: example_env_fields lexer_required_args assms(1))
  have "store_options allParams ?all [] = Inr vm"
    using store_required [of occ] assms(2) by simp
  then have st: "store allParams ?all = Inr (apply_defaults allParams vm)"
    by (simp add: store_def)
  have "length (required_args @ extra) + 1 \<noteq> 1"
    by (simp add: required_args_def)
  with store_no_help [OF st] show ?thesis
    by (simp add: try_block_def lex st assms(3))
qed

lemma try_block_required_args:
  "try_block example_env required_args = Inr (Inr example_params)"
proof -
  have "try_block example_env (required_args @ []) = Inr (Inr example_params)"
  proof (rule try_block_example)
    show "example_lexer allParams [] = Inr []" by simp
    show "store_options allParams []
           [(''ini'', String_value ''mvs.ini''), (''depthMapFolder'', String_value ''dm''),
            (''depthMapFilterFolder'', String_value ''dmf''),
            (''output'', String_value ''out/mesh.obj'')] =
          Inr [(''ini'', String_value ''mvs.ini''), (''depthMapFolder'', String_value ''dm''),
            (''depthMapFilterFolder'', String_value ''dmf''),
            (''output'', String_value ''out/mesh.obj'')]" by simp
    show "notify allParams (apply_defaults allParams
           [(''ini'', String_value ''mvs.ini''), (''depthMapFolder'', String_value ''dm''),
            (''depthMapFilterFolder'', String_value ''dmf''),
            (''output'', String_value ''out/mesh.obj'')]) = Inr example_params"
      by (simp add: option_defs notify_def as_string_def as_int_def as_EPartitioning_def
          example_params_def)
  qed
  then show ?thesis by simp
qed

lemma try_block_partitioning:
  assumes "v \<noteq> []" and "\<not> list_ex isspace v" and "CHR ''='' \<notin> set v"
  shows "try_block example_env (required_args @ [''--partitioning'', v])
     = Inr (Inr (example_params\<lparr>partitioning := EPartitioning_stringToEnum v\<rparr>))"
proof (rule try_block_example)
  show "example_lexer allParams [''--partitioning'', v] = Inr [(''partitioning'', v)]"
    by (simp add: option_defs token_name_def token_value_def)
  show "store_options allParams [(''partitioning'', v)]
           [(''ini'', String_value ''mvs.ini''), (''depthMapFolder'', String_value ''dm''),
            (''depthMapFilterFolder'', String_value ''dmf''),
            (''output'', String_value ''out/mesh.obj'')] =
          Inr [(''ini'', String_value ''mvs.ini''), (''depthMapFolder'', String_value ''dm''),
            (''depthMapFilterFolder'', String_value ''dmf''),
            (''output'', String_value ''out/mesh.obj''),
            (''partitioning'', Partitioning_value (EPartitioning_stringToEnum v))]"
    using assms by (simp add: option_defs validate_EPartitioning)
  show "notify allParams (apply_defaults allParams
           [(''ini'', String_value ''mvs.ini''), (''depthMapFolder'', String_value ''dm''),
            (''depthMapFilterFolder'', String_value ''dmf''),
            (''output'', String_value ''out/mesh.obj''),
            (''partitioning'', Partitioning_value (EPartitioning_stringToEnum v))])
        = Inr (example_params\<lparr>partitioning := EPartitioning_stringToEnum v\<rparr>)"
    by (simp add: option_defs notify_def as_string_def as_int_def as_EPartitioning_def
          example_params_def)
qed


lemma try_block_same_lexer:
  "parse_command_line env = parse_command_line env' \<Longrightarrow> try_block env args = try_block env' args"
  by (simp add: try_block_def)

lemma search_example:
  assumes "getNTracks env = getNTracks example_env" and "maxPts ps = 6000000"
  shows "search_loop env ps (evs, 1024, - 1) = Some (Inr (evs @ search_events, 412, 5000000))"
proof -
  let ?e1 = "evs @ [Call_cloneSpaceIfDoesNotExists 1024, Call_getNTracks 1024,
        Cout_value ''Number of track candidates: '' 13000000,
        Cout_value ''ocTreeDim: '' 1024, Cout ''downsample: fast'']"
  let ?e2 = "evs @ [Call_cloneSpaceIfDoesNotExists 1024, Call_getNTracks 1024,
        Cout_value ''Number of track candidates: '' 13000000,
        Cout_value ''ocTreeDim: '' 1024, Cout ''downsample: fast'',
        Call_cloneSpaceIfDoesNotExists 512, Call_getNTracks 512,
        Cout_value ''Number of track candidates: '' 7000000,
        Cout_value ''ocTreeDim: '' 512, Cout ''downsample: slow'']"
  let ?e3 = "evs @ [Call_cloneSpaceIfDoesNotExists 1024, Call_getNTracks 1024,
        Cout_value ''Number of track candidates: '' 13000000,
        Cout_value ''ocTreeDim: '' 1024, Cout ''downsample: fast'',
        Call_cloneSpaceIfDoesNotExists 512, Call_getNTracks 512,
        Cout_value ''Number of track candidates: '' 7000000,
        Cout_value ''ocTreeDim: '' 512, Cout ''downsample: slow'',
        Call_cloneSpaceIfDoesNotExists 412, Call_getNTracks 412,
        Cout_value ''Number of track candidates: '' 5000000]"
  have b1: "search_body env ps (evs, 1024, - 1) = Inr (?e1, 512, 13000000)"
    by (simp add: search_body_def assms example_env_fields exceeds_budget_def
        downsample_slow_def times_half_def truncate_double_def Let_def)
  have b2: "search_body env ps (?e1, 512, 13000000) = Inr (?e2, 412, 7000000)"
    by (simp add: search_body_def assms example_env_fields exceeds_budget_def
        downsample_slow_def Let_def)
  have b3: "search_body env ps (?e2, 412, 7000000) = Inr (?e3, 412, 5000000)"
    by (simp add: search_body_def assms example_env_fields exceeds_budget_def Let_def)
  have c1: "exceeds_budget ps (- 1)" "exceeds_budget ps 13000000" "exceeds_budget ps 7000000"
    "\<not> exceeds_budget ps 5000000"
    by (simp_all add: exceeds_budget_def assms)
  have "search_loop env ps (?e3, 412, 5000000) = Some (Inr (?e3, 412, 5000000))"
    by (subst search_loop.simps) (simp add: c1)
  then have "search_loop env ps (?e2, 412, 7000000) = Some (Inr (?e3, 412, 5000000))"
    by (subst search_loop.simps) (simp add: c1 b3)
  then have "search_loop env ps (?e1, 512, 13000000) = Some (Inr (?e3, 412, 5000000))"
    by (subst search_loop.simps) (simp add: c1 b2)
  then have "search_loop env ps (evs, 1024, - 1) = Some (Inr (?e3, 412, 5000000))"
    by (subst search_loop.simps) (simp add: c1 b1)
  then show ?thesis by (simp add: search_events_def)
qed

lemma reconstruct_example:
  assumes "ini_exportDebugGC env = None" and "pts (createMesh env 412) \<noteq> []"
    and "outputMesh ps = ''out/mesh.obj''"
  shows "singleBlock_reconstruct env ps (evs, 412, 5000000) =
     (evs @
      [Cout_value ''Number of tracks: '' 5000000,
       Cout_value ''ocTreeDim: '' 412,
       Call_loadSpaceFromFile 412,
       Call_reconstructVoxel,
       Call_graphCutPostProcessing,
       Call_createMesh,
       Call_createPtsCams,
       Call_getSortedUsedCams,
       Call_meshPostProcessing,
       Call_saveToBin ''denseReconstruction.bin'',
       Call_saveArrayOfArraysToFile ''meshPtsCamsFromDGC.bin'',
       Call_saveMvMeshToObj ''out/mesh.obj''], Running)"
  using assms by (simp add: singleBlock_reconstruct_def Let_def)

lemma block_single_example:
  assumes "getNTracks env = getNTracks example_env" and "maxPts ps = 6000000"
    and "maxPtsPerVoxel ps = 6000000"
    and "ini_exportDebugGC env = None" and "pts (createMesh env 412) \<noteq> []"
    and "outputMesh ps = ''out/mesh.obj''"
  shows "block_eSingleBlock env ps 1024 evs = Some (evs @ single_block_events, Running)"
  by (simp add: block_eSingleBlock_def search_example [OF assms(1,2)]
      reconstruct_example [OF assms(4,5,6)] assms(3) single_block_events_def)

lemma main_body_example:
  assumes "ini_gridLevel0 env = None" and "is_directory env"
    and "iniFilepath ps = ''mvs.ini''" and "depthMapFolder ps = ''dm''"
    and "depthMapFilterFolder ps = ''dmf''"
  shows "main_body env ps =
     (case switch_partitioning env ps 1024 setup_events of
           None \<Rightarrow> None
         | Some (evs', Running) \<Rightarrow> Some (evs' @ [Call_printfElapsedTime], Returned EXIT_SUCCESS)
         | Some (evs', c) \<Rightarrow> Some (evs', c))"
  using assms by (simp add: main_body_def setup_events_def)

lemma main_no_arguments:
  "main example_env [] = Some ([Cout_allParams []], Returned EXIT_SUCCESS)"
  by (simp add: main_def try_block_def example_env_fields store_def option_defs)

lemma main_unknown_option:
  assumes "token_name allParams tok = None"
  shows "main example_env [tok] = Some
     ([Cerr_ERROR (unknown_option tok), Cout_allParams (''Usage:'' @ [CHR 0x0A, CHR 0x0A])],
      Returned EXIT_FAILURE)"
proof -
  from assms have "parse_command_line example_env allParams [tok] = Inl (unknown_option tok)"
    by (simp add: example_env_fields)
  then show ?thesis
    by (simp add: main_def try_block_def catch_handlers_eq)
qed

lemma token_name_help: "token_name allParams ''--help'' = None"
  by (simp add: token_name_def option_defs)

lemma switch_single_example:
  assumes "partitioning ps = eSingleBlock"
    and "getNTracks env = getNTracks example_env" and "maxPts ps = 6000000"
    and "maxPtsPerVoxel ps = 6000000"
    and "ini_exportDebugGC env = None" and "pts (createMesh env 412) \<noteq> []"
    and "outputMesh ps = ''out/mesh.obj''"
  shows "switch_partitioning env ps 1024 evs
     = Some (evs @ single_block_events, Thrown (invalid_argument ''Partitioning not defined''))"
  by (simp add: switch_partitioning_def from_eSingleBlock_def from_eUndefined_def
      block_single_example [OF assms(2-7)] assms(1))

lemma block_auto_example:
  assumes "\<not> FileExists env" and "computeReconstructionPlanBinSearch env = (\<lambda>_. [])"
    and "maxPts ps = 6000000" and "maxPtsPerVoxel ps = 6000000"
    and "outputMesh ps = ''out/mesh.obj''"
  shows "block_eAuto env ps 1024 evs = (evs @ auto_events, Running)"
  using assms by (simp add: block_eAuto_def auto_events_def Let_def)

lemma switch_auto_example:
  "switch_partitioning example_env (example_params\<lparr>partitioning := eAuto\<rparr>) 1024 evs
     = Some (evs @ auto_events @ single_block_events,
             Thrown (invalid_argument ''Partitioning not defined''))"
proof -
  have a: "block_eAuto example_env (example_params\<lparr>partitioning := eAuto\<rparr>) 1024 evs
      = (evs @ auto_events, Running)"
    by (rule block_auto_example) (simp_all add: example_env_fields example_params_fields)
  have b: "block_eSingleBlock example_env (example_params\<lparr>partitioning := eAuto\<rparr>) 1024
       (evs @ auto_events) = Some ((evs @ auto_events) @ single_block_events, Running)"
    by (rule block_single_example) (simp_all add: example_env_fields example_params_fields)
  show ?thesis
    by (simp add: switch_partitioning_def from_eAuto_def a from_eSingleBlock_def b
        from_eUndefined_def)
qed

lemma main_single_example:
  assumes "parse_command_line env = example_lexer"
    and "ini_gridLevel0 env = None" and "is_directory env"
    and "getNTracks env = getNTracks example_env"
    and "ini_exportDebugGC env = None" and "pts (createMesh env 412) \<noteq> []"
  shows "main env required_args
     = Some (setup_events @ single_block_events,
             Thrown (invalid_argument ''Partitioning not defined''))"
proof -
  have "try_block env required_args = Inr (Inr example_params)"
    using try_block_same_lexer [of env example_env required_args] assms(1)
    by (simp add: example_env_fields try_block_required_args)
  moreover have "switch_partitioning env example_params 1024 setup_events
     = Some (setup_events @ single_block_events,
             Thrown (invalid_argument ''Partitioning not defined''))"
    by (rule switch_single_example) (simp_all add: assms example_params_fields)
  ultimately show ?thesis
    by (simp add: main_def main_body_example assms example_params_fields)
qed

lemma main_auto_example:
  "main example_env (required_args @ [''--partitioning'', ''auto''])
     = Some (setup_events @ auto_events @ single_block_events,
             Thrown (invalid_argument ''Partitioning not defined''))"
proof -
  have "try_block example_env (required_args @ [''--partitioning'', ''auto''])
      = Inr (Inr (example_params\<lparr>partitioning := eAuto\<rparr>))"
    using try_block_partitioning [of "''auto''"]
    by (simp add: isspace_def EPartitioning_stringToEnum_def)
  then show ?thesis
    by (simp add: main_def main_body_example example_env_fields example_params_fields
        switch_auto_example)
qed

lemma main_foo_example:
  "main example_env (required_args @ [''--partitioning'', ''foo''])
     = Some (setup_events, Thrown (invalid_argument ''Partitioning not defined''))"
proof -
  have "try_block example_env (required_args @ [''--partitioning'', ''foo''])
      = Inr (Inr (example_params\<lparr>partitioning := eUndefined\<rparr>))"
    using try_block_partitioning [of "''foo''"]
    by (simp add: isspace_def EPartitioning_stringToEnum_def)
  then show ?thesis
    by (simp add: main_def main_body_example example_env_fields example_params_fields
        switch_partitioning_def from_eUndefined_def)
qed

section \<open>The claims about the meshing executable\<close>

text \<open>
  Claim C1. What the switch runs in each mode. When the mode is \<open>auto\<close> and the
  switch comes to an end, the events of the run contain work of the multi-voxel path
  and work of the single-block path as well: the block of \<open>case eAuto\<close> has no
  \<open>break\<close>, so the single-block reconstruction follows the merge. When the mode is
  \<open>singleBlock\<close>, the switch adds single-block work only, and nothing of the
  multi-voxel path (no plan, no per-voxel reconstruction, no merge).
\<close>

theorem C1_branches_of_the_switch:
  "(partitioning ps = eAuto \<and> switch_partitioning env ps d evs = Some (evs', c) \<longrightarrow>
      list_ex multi_voxel_work evs' \<and> list_ex single_block_work evs')
   \<and> (partitioning ps = eSingleBlock \<and> \<not> list_ex multi_voxel_work evs
        \<and> switch_partitioning env ps d evs = Some (evs', c) \<longrightarrow>
      \<not> list_ex multi_voxel_work evs' \<and> list_ex single_block_work evs')"
proof -
  have "list_ex multi_voxel_work evs' \<and> list_ex single_block_work evs'"
    if "partitioning ps = eAuto" "switch_partitioning env ps d evs = Some (evs', c)"
  proof -
    obtain evs0 where b: "block_eAuto env ps d evs = (evs0, Running)"
      and w: "list_ex multi_voxel_work evs0"
      by (simp add: block_eAuto_def Let_def)
    from that b have "from_eSingleBlock env ps d evs0 = Some (evs', c)"
      by (simp add: switch_partitioning_def from_eAuto_def)
    from from_eSingleBlock_events [OF this] w show ?thesis by auto
  qed
  moreover have "\<not> list_ex multi_voxel_work evs' \<and> list_ex single_block_work evs'"
    if "partitioning ps = eSingleBlock" "\<not> list_ex multi_voxel_work evs"
      "switch_partitioning env ps d evs = Some (evs', c)"
  proof -
    from that have "from_eSingleBlock env ps d evs = Some (evs', c)"
      by (simp add: switch_partitioning_def)
    from from_eSingleBlock_events [OF this] that(2) show ?thesis by auto
  qed
  ultimately show ?thesis by blast
qed

text \<open>
  The run with \<open>--partitioning auto\<close> on the example scene performs the events of
  both blocks, one after the other; the run in the default mode performs those of the
  single block only.
\<close>

theorem C1_branches_of_the_switch_witness:
  "main example_env (required_args @ [''--partitioning'', ''auto''])
     = Some (setup_events @ auto_events @ single_block_events,
             Thrown (invalid_argument ''Partitioning not defined''))
   \<and> list_ex multi_voxel_work (setup_events @ auto_events @ single_block_events)
   \<and> list_ex single_block_work (setup_events @ auto_events @ single_block_events)
   \<and> main example_env required_args
     = Some (setup_events @ single_block_events,
             Thrown (invalid_argument ''Partitioning not defined''))
   \<and> \<not> list_ex multi_voxel_work (setup_events @ single_block_events)
   \<and> list_ex single_block_work (setup_events @ single_block_events)"
proof -
  have quiet: "\<not> list_ex multi_voxel_work setup_events"
    by (simp add: setup_events_def)
  have single: "switch_partitioning example_env example_params 1024 setup_events
     = Some (setup_events @ single_block_events,
             Thrown (invalid_argument ''Partitioning not defined''))"
    by (rule switch_single_example) (simp_all add: example_env_fields example_params_fields)
  from C1_branches_of_the_switch
    [of "example_params\<lparr>partitioning := eAuto\<rparr>" example_env 1024 setup_events
      "setup_events @ auto_events @ single_block_events"
      "Thrown (invalid_argument ''Partitioning not defined'')"]
    switch_auto_example [of setup_events]
  have "list_ex multi_voxel_work (setup_events @ auto_events @ single_block_events)
    \<and> list_ex single_block_work (setup_events @ auto_events @ single_block_events)"
    by simp
  moreover from C1_branches_of_the_switch
    [of example_params example_env 1024 setup_events
      "setup_events @ single_block_events"
      "Thrown (invalid_argument ''Partitioning not defined'')"]
    single quiet
  have "\<not> list_ex multi_voxel_work (setup_events @ single_block_events)
    \<and> list_ex single_block_work (setup_events @ single_block_events)"
    by (simp add: example_params_fields)
  moreover have "main example_env required_args
     = Some (setup_events @ single_block_events,
             Thrown (invalid_argument ''Partitioning not defined''))"
    by (rule main_single_example) (simp_all add: example_env_fields)
  ultimately show ?thesis using main_auto_example by simp
qed



text \<open>
  Claim C3, as the code has it. In single-block mode, when the search has ended at a
  resolution, the switch throws the runtime error \<open>Empty mesh\<close> exactly when the mesh
  that \<open>createMesh\<close> returns at that resolution has no vertex (\<open>mesh->pts\<close> is
  empty). The number of faces is not looked at.
\<close>

theorem C3_empty_mesh:
  assumes "partitioning ps = eSingleBlock"
    and "search_loop env ps
           (evs @ [Cout ''--- meshing partitioning: single block'',
                   Call_generateSpace (maxPtsPerVoxel ps) d], d, - 1)
         = Some (Inr (evs1, d1, n1))"
  shows "(\<exists>evs'. switch_partitioning env ps d evs
                 = Some (evs', Thrown (runtime_error ''Empty mesh'')))
         = (pts (createMesh env d1) = [])"
  using assms
  by (auto simp: switch_partitioning_def from_eSingleBlock_def block_eSingleBlock_def
      singleBlock_reconstruct_def from_eUndefined_def Let_def)

text \<open>
  A mesh with three vertices and no face does not raise \<open>Empty mesh\<close>: the run
  exports it and ends in the exception of the undefined case.
\<close>

theorem C3_empty_mesh_counterexample:
  "tris (createMesh faceless_env 412) = []
   \<and> main faceless_env required_args
     = Some (setup_events @ single_block_events,
             Thrown (invalid_argument ''Partitioning not defined''))"
proof -
  have "main faceless_env required_args
     = Some (setup_events @ single_block_events,
             Thrown (invalid_argument ''Partitioning not defined''))"
    by (rule main_single_example) (simp_all add: other_env_fields)
  then show ?thesis by (simp add: other_env_fields)
qed

text \<open>
  The mesh without vertices raises \<open>Empty mesh\<close>; the mesh of the example scene does
  not.
\<close>

theorem C3_empty_mesh_witness:
  "(\<exists>evs'. switch_partitioning empty_mesh_env example_params 1024 setup_events
             = Some (evs', Thrown (runtime_error ''Empty mesh'')))
   \<and> \<not> (\<exists>evs'. switch_partitioning example_env example_params 1024 setup_events
             = Some (evs', Thrown (runtime_error ''Empty mesh'')))"
proof -
  have a: "search_loop empty_mesh_env example_params
           (setup_events @ [Cout ''--- meshing partitioning: single block'',
                   Call_generateSpace (maxPtsPerVoxel example_params) 1024], 1024, - 1)
         = Some (Inr ((setup_events @ [Cout ''--- meshing partitioning: single block'',
                   Call_generateSpace (maxPtsPerVoxel example_params) 1024]) @ search_events,
                 412, 5000000))"
    by (rule search_example) (simp_all add: other_env_fields example_params_fields)
  have b: "search_loop example_env example_params
           (setup_events @ [Cout ''--- meshing partitioning: single block'',
                   Call_generateSpace (maxPtsPerVoxel example_params) 1024], 1024, - 1)
         = Some (Inr ((setup_events @ [Cout ''--- meshing partitioning: single block'',
                   Call_generateSpace (maxPtsPerVoxel example_params) 1024]) @ search_events,
                 412, 5000000))"
    by (rule search_example) (simp_all add: example_params_fields)
  from C3_empty_mesh [OF _ a] C3_empty_mesh [OF _ b] show ?thesis
    by (simp add: example_params_fields other_env_fields example_env_fields)
qed

text \<open>
  Claim C4, as the code has it. An exception of the lexer or of \<open>store\<close> (an unknown
  option, a value that does not convert) is reported on the error stream, followed by
  the usage text, and \<open>main\<close> returns \<open>EXIT_FAILURE\<close>; so is a required option that
  does not occur, when there is at least one argument. In these cases the events are
  the report and the usage text, and nothing else. Without any argument \<open>main\<close>
  prints the options and returns \<open>EXIT_SUCCESS\<close>, although the required options are
  missing. A text for the partitioning mode fails to convert only when it is empty or
  contains white space; any other text that is neither \<open>singleBlock\<close> nor \<open>auto\<close>
  is stored as \<open>eUndefined\<close>. With that mode \<open>main\<close> prints no usage text and does no
  work on the scene: it ends with the exception \<open>Partitioning not defined\<close>, which
  nothing catches.
\<close>

theorem C4_configuration_errors:
  "(parse_command_line env allParams args = Inl e \<longrightarrow>
      main env args = Some ([Cerr_ERROR e, Cout_allParams (''Usage:'' @ [CHR 0x0A, CHR 0x0A])],
                            Returned EXIT_FAILURE))
   \<and> (parse_command_line env allParams args = Inr occ \<and> store allParams occ = Inl e \<longrightarrow>
      main env args = Some ([Cerr_ERROR e, Cout_allParams (''Usage:'' @ [CHR 0x0A, CHR 0x0A])],
                            Returned EXIT_FAILURE))
   \<and> (args \<noteq> [] \<and> parse_command_line env allParams args = Inr occ
        \<and> k \<in> set [''ini'', ''depthMapFolder'', ''depthMapFilterFolder'', ''output'']
        \<and> k \<notin> fst ` set occ \<longrightarrow>
      (\<exists>e'. main env args
             = Some ([Cerr_ERROR e', Cout_allParams (''Usage:'' @ [CHR 0x0A, CHR 0x0A])],
                     Returned EXIT_FAILURE)))
   \<and> (args = [] \<and> parse_command_line env allParams args = Inr occ
        \<and> store allParams occ = Inr vm \<longrightarrow>
      main env args = Some ([Cout_allParams []], Returned EXIT_SUCCESS))
   \<and> validate EPartitioning_value v =
       (if v = [] \<or> list_ex isspace v then Inl (invalid_option_value v)
        else Inr (Partitioning_value (EPartitioning_stringToEnum v)))
   \<and> (try_block env args = Inr (Inr ps) \<and> partitioning ps = eUndefined \<longrightarrow>
      (\<exists>evs. main env args = Some (evs, Thrown (invalid_argument ''Partitioning not defined''))
             \<and> \<not> list_ex reconstruction_work evs \<and> \<not> list_ex is_usage evs))"
proof -
  have a: "main env args = Some ([Cerr_ERROR e, Cout_allParams (''Usage:'' @ [CHR 0x0A, CHR 0x0A])],
                            Returned EXIT_FAILURE)"
    if "parse_command_line env allParams args = Inl e"
    using that by (simp add: main_def try_block_def catch_handlers_eq)
  have b: "main env args = Some ([Cerr_ERROR e, Cout_allParams (''Usage:'' @ [CHR 0x0A, CHR 0x0A])],
                            Returned EXIT_FAILURE)"
    if "parse_command_line env allParams args = Inr occ" "store allParams occ = Inl e"
    using that by (simp add: main_def try_block_def catch_handlers_eq)
  have c: "\<exists>e'. main env args
             = Some ([Cerr_ERROR e', Cout_allParams (''Usage:'' @ [CHR 0x0A, CHR 0x0A])],
                     Returned EXIT_FAILURE)"
    if "args \<noteq> []" "parse_command_line env allParams args = Inr occ"
       "k \<in> set [''ini'', ''depthMapFolder'', ''depthMapFilterFolder'', ''output'']"
       "k \<notin> fst ` set occ"
  proof (cases "store allParams occ")
    case (Inl e')
    with that(2) show ?thesis by (simp add: main_def try_block_def catch_handlers_eq)
  next
    case (Inr vm)
    from store_required_absent [OF Inr that(3,4)] store_no_help [OF Inr] that(1,2) Inr
    show ?thesis by (simp add: main_def try_block_def catch_handlers_eq)
  qed
  have d: "main env args = Some ([Cout_allParams []], Returned EXIT_SUCCESS)"
    if "args = []" "parse_command_line env allParams args = Inr occ" "store allParams occ = Inr vm"
    using that by (simp add: main_def try_block_def)
  have f: "\<exists>evs. main env args = Some (evs, Thrown (invalid_argument ''Partitioning not defined''))
             \<and> \<not> list_ex reconstruction_work evs \<and> \<not> list_ex is_usage evs"
    if "try_block env args = Inr (Inr ps)" "partitioning ps = eUndefined"
    using that main_body_eUndefined [of ps env] by (simp add: main_def)
  from a b c d f validate_EPartitioning show ?thesis by blast
qed

text \<open>
  Two runs against the claim as it was stated: without arguments every required option
  is missing and the status is success; with the mode \<open>foo\<close> there is no usage text
  and no exit status, but an exception.
\<close>

theorem C4_configuration_errors_counterexample:
  "main example_env [] = Some ([Cout_allParams []], Returned EXIT_SUCCESS)
   \<and> main example_env (required_args @ [''--partitioning'', ''foo''])
     = Some (setup_events, Thrown (invalid_argument ''Partitioning not defined''))"
  using main_no_arguments main_foo_example by simp

text \<open>
  Runs for each part: an unknown option, a value that is not a number, a missing
  required option, no arguments, the conversion of two mode texts, and the mode
  \<open>foo\<close>.
\<close>

theorem C4_configuration_errors_witness:
  "main example_env [''--frobnicate'']
     = Some ([Cerr_ERROR (unknown_option ''--frobnicate''),
              Cout_allParams (''Usage:'' @ [CHR 0x0A, CHR 0x0A])], Returned EXIT_FAILURE)
   \<and> main example_env (required_args @ [''--maxPts'', ''many''])
     = Some ([Cerr_ERROR (invalid_option_value ''many''),
              Cout_allParams (''Usage:'' @ [CHR 0x0A, CHR 0x0A])], Returned EXIT_FAILURE)
   \<and> (\<exists>e'. main example_env [''--ini'', ''mvs.ini'']
             = Some ([Cerr_ERROR e', Cout_allParams (''Usage:'' @ [CHR 0x0A, CHR 0x0A])],
                     Returned EXIT_FAILURE))
   \<and> main example_env [] = Some ([Cout_allParams []], Returned EXIT_SUCCESS)
   \<and> validate EPartitioning_value ''foo'' = Inr (Partitioning_value eUndefined)
   \<and> validate EPartitioning_value ''single block'' = Inl (invalid_option_value ''single block'')
   \<and> (\<exists>evs. main example_env (required_args @ [''--partitioning'', ''foo''])
              = Some (evs, Thrown (invalid_argument ''Partitioning not defined''))
            \<and> \<not> list_ex reconstruction_work evs \<and> \<not> list_ex is_usage evs)"
proof -
  have p1: "parse_command_line example_env allParams [''--frobnicate'']
      = Inl (unknown_option ''--frobnicate'')"
    by (simp add: example_env_fields token_name_def option_defs)
  have p2: "parse_command_line example_env allParams (required_args @ [''--maxPts'', ''many''])
      = Inr [(''ini'', ''mvs.ini''), (''depthMapFolder'', ''dm''),
             (''depthMapFilterFolder'', ''dmf''), (''output'', ''out/mesh.obj''),
             (''maxPts'', ''many'')]"
    by (simp add: example_env_fields lexer_required_args)
       (simp add: token_name_def token_value_def option_defs)
  have s2: "store allParams [(''ini'', ''mvs.ini''), (''depthMapFolder'', ''dm''),
             (''depthMapFilterFolder'', ''dmf''), (''output'', ''out/mesh.obj''),
             (''maxPts'', ''many'')] = Inl (invalid_option_value ''many'')"
    using store_required [of "[(''maxPts'', ''many'')]"]
    by (simp add: store_def) (simp add: option_defs conversion_defs)
  have p3: "parse_command_line example_env allParams [''--ini'', ''mvs.ini'']
      = Inr [(''ini'', ''mvs.ini'')]"
    by (simp add: example_env_fields token_name_def token_value_def option_defs)
  have p4: "parse_command_line example_env allParams [] = Inr []"
    by (simp add: example_env_fields)
  have s4: "store allParams [] = Inr (apply_defaults allParams [])"
    by (simp add: store_def)
  have t5: "try_block example_env (required_args @ [''--partitioning'', ''foo''])
      = Inr (Inr (example_params\<lparr>partitioning := eUndefined\<rparr>))"
    using try_block_partitioning [of "''foo''"]
    by (simp add: isspace_def EPartitioning_stringToEnum_def)
  note thm1 = C4_configuration_errors
    [of example_env "[''--frobnicate'']" "unknown_option ''--frobnicate''"]
  note thm2 = C4_configuration_errors
    [of example_env "required_args @ [''--maxPts'', ''many'']" "invalid_option_value ''many''"
      "[(''ini'', ''mvs.ini''), (''depthMapFolder'', ''dm''),
             (''depthMapFilterFolder'', ''dmf''), (''output'', ''out/mesh.obj''),
             (''maxPts'', ''many'')]"]
  note thm3 = C4_configuration_errors
    [of example_env "[''--ini'', ''mvs.ini'']" _ "[(''ini'', ''mvs.ini'')]" "''output''"]
  note thm4 = C4_configuration_errors
    [of example_env "[]" _ "[]" _ "apply_defaults allParams []" "''foo''"]
  note thm5 = C4_configuration_errors
    [of example_env "required_args @ [''--partitioning'', ''foo'']" _ _ _ _ "''single block''"
       "example_params\<lparr>partitioning := eUndefined\<rparr>"]
  from thm1 p1 have r1: "main example_env [''--frobnicate'']
     = Some ([Cerr_ERROR (unknown_option ''--frobnicate''),
              Cout_allParams (''Usage:'' @ [CHR 0x0A, CHR 0x0A])], Returned EXIT_FAILURE)"
    by blast
  from thm2 p2 s2 have r2: "main example_env (required_args @ [''--maxPts'', ''many''])
     = Some ([Cerr_ERROR (invalid_option_value ''many''),
              Cout_allParams (''Usage:'' @ [CHR 0x0A, CHR 0x0A])], Returned EXIT_FAILURE)"
    by blast
  from thm3 p3 have r3: "\<exists>e'. main example_env [''--ini'', ''mvs.ini'']
             = Some ([Cerr_ERROR e', Cout_allParams (''Usage:'' @ [CHR 0x0A, CHR 0x0A])],
                     Returned EXIT_FAILURE)"
    by simp
  from thm4 p4 s4 have r4: "main example_env [] = Some ([Cout_allParams []], Returned EXIT_SUCCESS)"
    by blast
  from thm4 have r5: "validate EPartitioning_value ''foo'' = Inr (Partitioning_value eUndefined)"
    by (simp add: isspace_def EPartitioning_stringToEnum_def)
  from thm5 have r6: "validate EPartitioning_value ''single block''
      = Inl (invalid_option_value ''single block'')"
    by (simp add: isspace_def)
  from thm5 t5 have r7: "\<exists>evs. main example_env (required_args @ [''--partitioning'', ''foo''])
              = Some (evs, Thrown (invalid_argument ''Partitioning not defined''))
            \<and> \<not> list_ex reconstruction_work evs \<and> \<not> list_ex is_usage evs"
    by simp
  from r1 r2 r3 r4 r5 r6 r7 show ?thesis by blast
qed




text \<open>
  Claim C6. In an iteration whose count of track candidates exceeds the budget, the
  next resolution is \<open>ocTreeDim - 100\<close> when the ratio of the count to the budget is
  below 2, and \<open>ocTreeDim\<close> halved otherwise (also for a budget of zero, where there is
  no ratio). Halving truncates toward zero. The subtraction is the mathematical one as
  long as it stays in the range of \<open>int\<close>; where it would leave the range, the
  iteration ends in the overflow and there is no next resolution.
\<close>

theorem C6_next_resolution:
  assumes "exceeds_budget ps (getNTracks env d)"
  shows "(sint (maxPts ps) \<noteq> 0
            \<and> real (unat (getNTracks env d)) / real_of_int (sint (maxPts ps)) < 2
          \<longrightarrow> (if - (2 ^ 31) \<le> sint d - 100
               then (\<exists>evs'. search_body env ps (evs, d, n) = Inr (evs', d - 100, getNTracks env d))
                    \<and> sint (d - 100) = sint d - 100
               else (\<exists>evs'. search_body env ps (evs, d, n) = Inl evs')))
       \<and> (\<not> (sint (maxPts ps) \<noteq> 0
               \<and> real (unat (getNTracks env d)) / real_of_int (sint (maxPts ps)) < 2)
          \<longrightarrow> (\<exists>evs'. search_body env ps (evs, d, n)
                        = Inr (evs', times_half d, getNTracks env d))
               \<and> sint (times_half d) = sgn (sint d) * (\<bar>sint d\<bar> div 2))"
  using assms
  by (auto simp: search_body_def Let_def downsample_slow_def sint_times_half sint_minus_100)

text \<open>
  On the example scene: 13 million candidates at 1024 are more than twice the budget,
  so the next resolution is 512; 7 million at 512 are less than twice, so it is 412.
  At a resolution within 100 of the least \<open>int\<close> the subtraction overflows.
\<close>

theorem C6_next_resolution_witness:
  "(\<exists>evs'. search_body example_env example_params ([], 1024, - 1)
             = Inr (evs', times_half 1024, 13000000))
   \<and> sint (times_half 1024) = 512
   \<and> (\<exists>evs'. search_body example_env example_params ([], 512, 13000000)
             = Inr (evs', 412, 7000000))
   \<and> (\<exists>evs'. search_body (example_env\<lparr>getNTracks := (\<lambda>_. 7000000)\<rparr>) example_params
               ([], - 2147483600, 7000000)
             = Inl evs')"
proof -
  have e1: "exceeds_budget example_params (getNTracks example_env 1024)"
    and e2: "exceeds_budget example_params (getNTracks example_env 512)"
    and e3: "exceeds_budget example_params
               (getNTracks (example_env\<lparr>getNTracks := (\<lambda>_. 7000000)\<rparr>) (- 2147483600))"
    by (simp_all add: exceeds_budget_def example_params_fields example_env_fields)
  from C6_next_resolution [OF e1, of "[]" "- 1"] C6_next_resolution [OF e2, of "[]" 13000000]
    C6_next_resolution [OF e3, of "[]" 7000000]
  show ?thesis
    by (simp add: example_params_fields example_env_fields)
qed

text \<open>
  Claim C7. The block of \<open>case eAuto\<close> loads the plan from
  \<open>hexahsToReconstruct.bin\<close> exactly when that file exists, whatever the parameters
  are; it computes the plan with \<open>computeReconstructionPlanBinSearch(maxPts)\<close> and
  saves it to that file exactly when the file does not exist. The plan that the later
  steps use is the loaded one or the computed one accordingly. In both cases the
  block runs to its end: the missing file is no error.
\<close>

theorem C7_plan_cache:
  "\<exists>more. block_eAuto env ps d evs = (evs @ more, Running)
     \<and> (Call_loadArrayFromFile ''hexahsToReconstruct.bin'' \<in> set more) = FileExists env
     \<and> (Call_computeReconstructionPlanBinSearch (maxPts ps) \<in> set more) = (\<not> FileExists env)
     \<and> (Call_saveArrayToFile ''hexahsToReconstruct.bin''
            (computeReconstructionPlanBinSearch env (maxPts ps)) \<in> set more)
         = (\<not> FileExists env)
     \<and> Call_loadLargeScalePtsCams
          (if FileExists env then loadArrayFromFile env
           else computeReconstructionPlanBinSearch env (maxPts ps)) \<in> set more"
  by (simp add: block_eAuto_def Let_def)

text \<open>The example scene without a cached plan, and with one.\<close>

theorem C7_plan_cache_witness:
  "(\<exists>more. block_eAuto example_env example_params 1024 [] = (more, Running)
      \<and> Call_loadArrayFromFile ''hexahsToReconstruct.bin'' \<notin> set more
      \<and> Call_computeReconstructionPlanBinSearch 6000000 \<in> set more
      \<and> Call_saveArrayToFile ''hexahsToReconstruct.bin'' [] \<in> set more)
   \<and> (\<exists>more. block_eAuto cached_env example_params 1024 [] = (more, Running)
      \<and> Call_loadArrayFromFile ''hexahsToReconstruct.bin'' \<in> set more
      \<and> Call_computeReconstructionPlanBinSearch 6000000 \<notin> set more
      \<and> Call_loadLargeScalePtsCams (loadArrayFromFile cached_env) \<in> set more)"
  using C7_plan_cache [of example_env example_params 1024 "[]"]
    C7_plan_cache [of cached_env example_params 1024 "[]"]
  by (simp add: example_env_fields other_env_fields example_params_fields) blast

text \<open>
  Claim C8. No run with at least one argument returns \<open>EXIT_SUCCESS\<close>, whatever the
  lexer makes of the arguments: the options do not declare \<open>help\<close>, so the map never
  counts it, and the early return is left to \<open>argc == 1\<close>. In particular \<open>--help\<close>
  is an unknown option: the error and the usage text are printed and \<open>main\<close> returns
  \<open>EXIT_FAILURE\<close>. The run without arguments prints the options and returns
  \<open>EXIT_SUCCESS\<close>.
\<close>

theorem C8_help_request:
  "main env (a # args) \<noteq> Some (evs, Returned EXIT_SUCCESS)
   \<and> main example_env [''--help'']
     = Some ([Cerr_ERROR (unknown_option ''--help''),
              Cout_allParams (''Usage:'' @ [CHR 0x0A, CHR 0x0A])], Returned EXIT_FAILURE)
   \<and> main example_env [] = Some ([Cout_allParams []], Returned EXIT_SUCCESS)"
  using main_with_arguments [of env a args evs] main_unknown_option [OF token_name_help]
    main_no_arguments
  by simp

text \<open>
  Claim C9. Control never leaves the switch at its end, and \<open>main\<close> does not return
  from inside it. For the undefined mode the switch throws
  \<open>invalid_argument("Partitioning not defined")\<close> at once; for \<open>singleBlock\<close> it
  throws it when the single block has run to its end; for \<open>auto\<close> it throws it when
  the block of \<open>case eAuto\<close> and then the single block have run to their ends.
  Hence, once the options are accepted and the switch is entered, \<open>main\<close> returns no
  exit status at all, \<open>EXIT_SUCCESS\<close> included.
\<close>

theorem C9_switch_falls_through:
  "switch_partitioning env ps d evs \<noteq> Some (evs', Running)
   \<and> switch_partitioning env ps d evs \<noteq> Some (evs', Returned c)
   \<and> (partitioning ps = eUndefined \<longrightarrow>
        switch_partitioning env ps d evs
          = Some (evs, Thrown (invalid_argument ''Partitioning not defined'')))
   \<and> (partitioning ps = eSingleBlock \<and> block_eSingleBlock env ps d evs = Some (evs1, Running) \<longrightarrow>
        switch_partitioning env ps d evs
          = Some (evs1, Thrown (invalid_argument ''Partitioning not defined'')))
   \<and> (partitioning ps = eAuto \<and> block_eAuto env ps d evs = (evs0, Running)
        \<and> block_eSingleBlock env ps d evs0 = Some (evs1, Running) \<longrightarrow>
        switch_partitioning env ps d evs
          = Some (evs1, Thrown (invalid_argument ''Partitioning not defined'')))
   \<and> (try_block env args = Inr (Inr ps) \<longrightarrow> main env args \<noteq> Some (evs', Returned c))"
proof -
  have "main env args \<noteq> Some (evs', Returned c)" if "try_block env args = Inr (Inr ps)"
    using that main_body_not_Returned [of env ps evs' c] by (simp add: main_def)
  moreover have "switch_partitioning env ps d evs
          = Some (evs, Thrown (invalid_argument ''Partitioning not defined''))"
    if "partitioning ps = eUndefined"
    using that by (simp add: switch_partitioning_def from_eUndefined_def)
  moreover have "switch_partitioning env ps d evs
          = Some (evs1, Thrown (invalid_argument ''Partitioning not defined''))"
    if "partitioning ps = eSingleBlock" "block_eSingleBlock env ps d evs = Some (evs1, Running)"
    using that by (simp add: switch_partitioning_def from_eSingleBlock_def from_eUndefined_def)
  moreover have "switch_partitioning env ps d evs
          = Some (evs1, Thrown (invalid_argument ''Partitioning not defined''))"
    if "partitioning ps = eAuto" "block_eAuto env ps d evs = (evs0, Running)"
      "block_eSingleBlock env ps d evs0 = Some (evs1, Running)"
    using that
    by (simp add: switch_partitioning_def from_eAuto_def from_eSingleBlock_def from_eUndefined_def)
  ultimately show ?thesis
    using switch_not_Running [of env ps d evs evs'] switch_not_Returned [of env ps d evs evs' c]
    by blast
qed

text \<open>
  The three modes on the example scene: the undefined mode throws at once; in the
  default mode the single block runs to its end and the exception follows; in the mode
  \<open>auto\<close> both blocks run to their ends and the exception follows. The run of
  \<open>main\<close> in the default mode ends with the exception, not with a return.
\<close>

theorem C9_switch_falls_through_witness:
  "switch_partitioning example_env (example_params\<lparr>partitioning := eUndefined\<rparr>) 1024
       setup_events
     = Some (setup_events, Thrown (invalid_argument ''Partitioning not defined''))
   \<and> block_eSingleBlock example_env example_params 1024 setup_events
     = Some (setup_events @ single_block_events, Running)
   \<and> switch_partitioning example_env example_params 1024 setup_events
     = Some (setup_events @ single_block_events,
             Thrown (invalid_argument ''Partitioning not defined''))
   \<and> block_eAuto example_env (example_params\<lparr>partitioning := eAuto\<rparr>) 1024 setup_events
     = (setup_events @ auto_events, Running)
   \<and> block_eSingleBlock example_env (example_params\<lparr>partitioning := eAuto\<rparr>) 1024
       (setup_events @ auto_events)
     = Some (setup_events @ auto_events @ single_block_events, Running)
   \<and> switch_partitioning example_env (example_params\<lparr>partitioning := eAuto\<rparr>) 1024
       setup_events
     = Some (setup_events @ auto_events @ single_block_events,
             Thrown (invalid_argument ''Partitioning not defined''))
   \<and> try_block example_env required_args = Inr (Inr example_params)
   \<and> main example_env required_args
     = Some (setup_events @ single_block_events,
             Thrown (invalid_argument ''Partitioning not defined''))
   \<and> main example_env required_args
     \<noteq> Some (setup_events @ single_block_events @ [Call_printfElapsedTime],
             Returned EXIT_SUCCESS)"
proof -
  let ?IA = "Thrown (invalid_argument ''Partitioning not defined'')"
  have single: "block_eSingleBlock example_env example_params 1024 setup_events
     = Some (setup_events @ single_block_events, Running)"
    by (rule block_single_example) (simp_all add: example_env_fields example_params_fields)
  have auto1: "block_eAuto example_env (example_params\<lparr>partitioning := eAuto\<rparr>) 1024
       setup_events = (setup_events @ auto_events, Running)"
    by (rule block_auto_example) (simp_all add: example_env_fields example_params_fields)
  have "block_eSingleBlock example_env (example_params\<lparr>partitioning := eAuto\<rparr>) 1024
       (setup_events @ auto_events)
     = Some ((setup_events @ auto_events) @ single_block_events, Running)"
    by (rule block_single_example) (simp_all add: example_env_fields example_params_fields)
  then have auto2: "block_eSingleBlock example_env (example_params\<lparr>partitioning := eAuto\<rparr>)
       1024 (setup_events @ auto_events)
     = Some (setup_events @ auto_events @ single_block_events, Running)"
    by simp
  from C9_switch_falls_through
      [of example_env "example_params\<lparr>partitioning := eUndefined\<rparr>" 1024 setup_events]
  have r0: "switch_partitioning example_env (example_params\<lparr>partitioning := eUndefined\<rparr>)
       1024 setup_events = Some (setup_events, ?IA)"
    by simp
  from C9_switch_falls_through
      [of example_env example_params 1024 setup_events _ _ "setup_events @ single_block_events"]
    single
  have r1: "switch_partitioning example_env example_params 1024 setup_events
     = Some (setup_events @ single_block_events, ?IA)"
    by (simp add: example_params_fields)
  from C9_switch_falls_through
      [of example_env "example_params\<lparr>partitioning := eAuto\<rparr>" 1024 setup_events _ _
        "setup_events @ auto_events @ single_block_events" "setup_events @ auto_events"]
    auto1 auto2
  have r2: "switch_partitioning example_env (example_params\<lparr>partitioning := eAuto\<rparr>) 1024
       setup_events = Some (setup_events @ auto_events @ single_block_events, ?IA)"
    by simp
  from r1 have r3: "main example_env required_args
     = Some (setup_events @ single_block_events, ?IA)"
    by (simp add: main_def try_block_required_args main_body_example example_env_fields
        example_params_fields)
  from C9_switch_falls_through
      [of example_env example_params _ _
        "setup_events @ single_block_events @ [Call_printfElapsedTime]" EXIT_SUCCESS
        _ _ required_args]
    try_block_required_args
  have r4: "main example_env required_args
     \<noteq> Some (setup_events @ single_block_events @ [Call_printfElapsedTime],
             Returned EXIT_SUCCESS)"
    by simp
  from r0 single r1 auto1 auto2 r2 try_block_required_args r3 r4 show ?thesis by simp
qed

end
